theory Spec2Isabelle
  imports Main
begin

section \<open>The regular expressions of the program\<close>

text \<open>
  The program classifies links with three anchored patterns and reads durations with an
  unanchored pattern with named groups. The patterns are kept as syntax trees, and
  \<open>rmatch\<close> lists the ways a pattern can match at a position, in the order in which a
  backtracking matcher tries them: the head of the list is the match the engine reports.
  A state is the index reached, the input still to read, and the named captures made so
  far (latest first). A group records what it matched under its name; a numbered group
  does so under its number where the program reads it, and is left unrecorded where the
  program never does. A string is a list of 8-bit characters, one per code unit; the dot
  matches every character but the line terminators, of which line feed and carriage
  return are the two in this range. None of the patterns has a flag.
\<close>

datatype regex =
    Eps
  | Bol
  | Eol
  | Dot
  | Chr char
  | Cls "(char \<times> char) list"
  | NCls "(char \<times> char) list"
  | Seq regex regex
  | Alt regex regex
  | Opt regex
  | Star bool regex
  | Cap string regex

type_synonym captures = "(string \<times> string) list"
type_synonym mstate = "nat \<times> string \<times> captures"

definition in_ranges :: "(char \<times> char) list \<Rightarrow> char \<Rightarrow> bool" where
  "in_ranges rs c =
     list_ex (\<lambda>(lo, hi). (of_char lo :: nat) \<le> of_char c \<and> (of_char c :: nat) \<le> of_char hi) rs"

definition line_terminator :: "char \<Rightarrow> bool" where
  "line_terminator c = (c = CHR 0x0A \<or> c = CHR 0x0D)"

definition step_char :: "(char \<Rightarrow> bool) \<Rightarrow> mstate \<Rightarrow> mstate list" where
  "step_char ok st =
     (case st of (p, s, c) \<Rightarrow>
        (case s of [] \<Rightarrow> [] | x # xs \<Rightarrow> if ok x then [(Suc p, xs, c)] else []))"

definition consumed :: "mstate \<Rightarrow> mstate \<Rightarrow> bool" where
  "consumed st st' = (length (fst (snd st')) < length (fst (snd st)))"

text \<open>
  A quantified pattern repeats its body; an iteration that reads nothing is rejected, so
  the input left bounds the number of iterations. Greedy repetition tries one more
  iteration before stopping, lazy repetition tries stopping first.
\<close>

primrec iter :: "nat \<Rightarrow> bool \<Rightarrow> (mstate \<Rightarrow> mstate list) \<Rightarrow> mstate \<Rightarrow> mstate list" where
  "iter 0 g m st = [st]"
| "iter (Suc n) g m st =
     (let more = concat (map (iter n g m) (filter (consumed st) (m st)))
      in if g then more @ [st] else st # more)"

primrec rmatch :: "regex \<Rightarrow> mstate \<Rightarrow> mstate list" where
  "rmatch Eps st = [st]"
| "rmatch Bol st = (if fst st = 0 then [st] else [])"
| "rmatch Eol st = (if fst (snd st) = [] then [st] else [])"
| "rmatch Dot st = step_char (\<lambda>c. \<not> line_terminator c) st"
| "rmatch (Chr a) st = step_char (\<lambda>c. c = a) st"
| "rmatch (Cls rs) st = step_char (in_ranges rs) st"
| "rmatch (NCls rs) st = step_char (\<lambda>c. \<not> in_ranges rs c) st"
| "rmatch (Seq a b) st = concat (map (rmatch b) (rmatch a st))"
| "rmatch (Alt a b) st = rmatch a st @ rmatch b st"
| "rmatch (Opt a) st = filter (consumed st) (rmatch a st) @ [st]"
| "rmatch (Star g a) st = iter (length (fst (snd st))) g (rmatch a) st"
| "rmatch (Cap n a) st =
     map (\<lambda>st'. (fst st', fst (snd st'),
                 (n, take (fst st' - fst st) (fst (snd st))) # snd (snd st')))
         (rmatch a st)"

definition Plus :: "bool \<Rightarrow> regex \<Rightarrow> regex" where
  "Plus g a = Seq a (Star g a)"

primrec lit :: "string \<Rightarrow> regex" where
  "lit [] = Eps"
| "lit (c # cs) = Seq (Chr c) (lit cs)"

primrec seqs :: "regex list \<Rightarrow> regex" where
  "seqs [] = Eps"
| "seqs (r # rs) = Seq r (seqs rs)"

text \<open>
  \<open>exec\<close> without the global or sticky flag: try each start index from 0 and report the
  first match found; \<open>test\<close> says whether there is one.
\<close>

fun exec_from :: "regex \<Rightarrow> nat \<Rightarrow> string \<Rightarrow> mstate option" where
  "exec_from r p s =
     (case rmatch r (p, s, []) of
        st # _ \<Rightarrow> Some st
      | [] \<Rightarrow> (case s of [] \<Rightarrow> None | _ # s' \<Rightarrow> exec_from r (Suc p) s'))"

definition exec :: "regex \<Rightarrow> string \<Rightarrow> mstate option" where
  "exec r s = exec_from r 0 s"

definition test :: "regex \<Rightarrow> string \<Rightarrow> bool" where
  "test r s = (exec r s \<noteq> None)"

definition digit :: regex where
  "digit = Cls [(CHR ''0'', CHR ''9'')]"

subsection \<open>The link patterns (helper module)\<close>

definition storefront :: regex where
  "storefront = seqs [Bol, lit ''http'', Opt (Chr CHR ''s''), lit ''://music.apple.com/'']"

definition appleMusicSongRegex :: regex where
  "appleMusicSongRegex =
     seqs [storefront, Plus False Dot, Chr CHR ''/'', Alt (lit ''song'') (lit ''album''),
           Chr CHR ''/'', Plus False Dot,
           Alt (seqs [Chr CHR ''/'', Plus False Dot, lit ''?i=''])  (Chr CHR ''/''),
           Plus True digit, Eol]"

definition appleMusicAlbumRegex :: regex where
  "appleMusicAlbumRegex =
     seqs [storefront, Plus False Dot, lit ''/album/'', Plus True Dot, Chr CHR ''/'',
           Plus True digit, Eol]"

definition appleMusicPlaylistRegex :: regex where
  "appleMusicPlaylistRegex =
     seqs [storefront, Plus False Dot, lit ''/playlist/'', Plus True Dot, lit ''/pl.'',
           Opt (Alt (lit ''u-'') (lit ''pm-'')),
           Plus True (Cls [(CHR ''a'', CHR ''z''), (CHR ''A'', CHR ''Z''), (CHR ''0'', CHR ''9'')]),
           Eol]"

subsection \<open>Duration display (parseDuration)\<close>

text \<open>
  The pattern is assembled from text: an optional sign, \<open>P\<close>, the date units and an
  optional time part, every unit being \<open>((?<name>-?\d*[\.,]?\d+)U)?\<close> (the
  helper \<open>r\<close> of the source, here \<open>r_group\<close>). It has no
  anchors.
\<close>

definition number_pattern :: regex where
  "number_pattern =
     seqs [Opt (Chr CHR ''-''), Star True digit,
           Opt (Cls [(CHR ''.'', CHR ''.''), (CHR '','', CHR '','')]), Plus True digit]"

definition r_group :: "string \<Rightarrow> char \<Rightarrow> regex" where
  "r_group name unit = Opt (Seq (Cap name number_pattern) (Chr unit))"

definition units_pattern :: regex where
  "units_pattern =
     seqs [r_group ''years'' CHR ''Y'', r_group ''months'' CHR ''M'', r_group ''weeks'' CHR ''W'',
           r_group ''days'' CHR ''D'',
           Opt (seqs [Chr CHR ''T'', r_group ''hours'' CHR ''H'', r_group ''minutes'' CHR ''M'',
                      r_group ''seconds'' CHR ''S''])]"

definition duration_regex :: regex where
  "duration_regex =
     Seq (Opt (Cap ''negative'' (Chr CHR ''-''))) (Seq (Chr CHR ''P'') units_pattern)"

text \<open>A group that took no part in the match is undefined (\<open>None\<close>).\<close>

definition groups :: "captures \<Rightarrow> string \<Rightarrow> string option" where
  "groups c n = map_of c n"

definition dur :: "captures \<Rightarrow> string option list" where
  "dur c =
     [groups c ''years'', groups c ''months'', groups c ''weeks'', groups c ''days'',
      groups c ''hours'', groups c ''minutes'', groups c ''seconds'']"

definition truthy_str :: "string option \<Rightarrow> bool" where
  "truthy_str v = (case v of None \<Rightarrow> False | Some s \<Rightarrow> s \<noteq> [])"

definition padStart :: "nat \<Rightarrow> char \<Rightarrow> string \<Rightarrow> string" where
  "padStart n c s = replicate (n - length s) c @ s"

fun join :: "string \<Rightarrow> string list \<Rightarrow> string" where
  "join sep [] = []"
| "join sep [x] = x"
| "join sep (x # y # ys) = x @ sep @ join sep (y # ys)"

definition keep_unit :: "nat \<Rightarrow> nat \<times> string option \<Rightarrow> bool" where
  "keep_unit len ix = (truthy_str (snd ix) \<or> int (fst ix) > int len - 2)"

definition show_unit :: "nat \<times> string option \<Rightarrow> string" where
  "show_unit ix =
     (let m = (case snd ix of None \<Rightarrow> ''0'' | Some s \<Rightarrow> if s = [] then ''0'' else s)
      in if fst ix < 1 then m else padStart 2 CHR ''0'' m)"

definition render :: "string option list \<Rightarrow> string" where
  "render a =
     (let kept = map snd (filter (keep_unit (length a)) (enumerate 0 a));
          out = join '':'' (map show_unit (enumerate 0 kept))
      in if out = [] then ''0:00'' else out)"

definition parseDuration :: "string \<Rightarrow> string" where
  "parseDuration d =
     (case exec duration_regex d of
        None \<Rightarrow> ''0:00''
      | Some st \<Rightarrow> render (dur (snd (snd st))))"

text \<open>
  The duration grammar as the specification words it, \<open>[-]P[nY][nM][nW][nD][T[nH][nM][nS]]\<close>:
  a string is in the grammar when the pattern can match the whole of it.
\<close>

definition in_duration_grammar :: "string \<Rightarrow> bool" where
  "in_duration_grammar d = list_ex (\<lambda>st. fst (snd st) = []) (rmatch duration_regex (0, d, []))"

subsection \<open>Auxiliary notions for reasoning about patterns\<close>

text \<open>
  A pattern without \<open>^\<close> matches the same way wherever it starts; a pattern built from
  optional parts only can always match. \<open>shift\<close> moves a state to a later index and
  puts earlier captures below its own.
\<close>

primrec no_bol :: "regex \<Rightarrow> bool" where
  "no_bol Eps = True"
| "no_bol Bol = False"
| "no_bol Eol = True"
| "no_bol Dot = True"
| "no_bol (Chr a) = True"
| "no_bol (Cls rs) = True"
| "no_bol (NCls rs) = True"
| "no_bol (Seq a b) = (no_bol a \<and> no_bol b)"
| "no_bol (Alt a b) = (no_bol a \<and> no_bol b)"
| "no_bol (Opt a) = no_bol a"
| "no_bol (Star g a) = no_bol a"
| "no_bol (Cap n a) = no_bol a"

primrec never_fails :: "regex \<Rightarrow> bool" where
  "never_fails Eps = True"
| "never_fails Bol = False"
| "never_fails Eol = False"
| "never_fails Dot = False"
| "never_fails (Chr a) = False"
| "never_fails (Cls rs) = False"
| "never_fails (NCls rs) = False"
| "never_fails (Seq a b) = (never_fails a \<and> never_fails b)"
| "never_fails (Alt a b) = (never_fails a \<or> never_fails b)"
| "never_fails (Opt a) = True"
| "never_fails (Star g a) = True"
| "never_fails (Cap n a) = never_fails a"

definition shift :: "nat \<Rightarrow> captures \<Rightarrow> mstate \<Rightarrow> mstate" where
  "shift p c st = (p + fst st, fst (snd st), snd (snd st) @ c)"

section \<open>The platform the program runs on\<close>

subsection \<open>Failures\<close>

text \<open>
  An asynchronous function either resolves with a value (\<open>Inr\<close>) or rejects with an
  error (\<open>Inl\<close>). \<open>TypeError\<close> is what the runtime raises when the program reads a
  property of \<open>undefined\<close> or \<open>null\<close> or calls a method a value does not have;
  \<open>Rejected\<close> is a failure that comes out of a collaborator or a library function, with
  the collaborator's own reason; \<open>Thrown\<close> is an error the program itself throws.
\<close>

datatype error = TypeError | Rejected string | Thrown string

fun ebind :: "error + 'a \<Rightarrow> ('a \<Rightarrow> error + 'b) \<Rightarrow> error + 'b" where
  "ebind (Inl e) f = Inl e"
| "ebind (Inr x) f = f x"

definition lift :: "string + 'a \<Rightarrow> error + 'a" where
  "lift x = (case x of Inl reason \<Rightarrow> Inl (Rejected reason) | Inr v \<Rightarrow> Inr v)"

text \<open>
  \<open>p.then(f, g)\<close>: \<open>f\<close> runs on the value, \<open>g\<close> on the rejection of \<open>p\<close>; a
  failure of \<open>f\<close> is the failure of the result and does not reach \<open>g\<close>.
\<close>

definition then2 :: "error + 'a \<Rightarrow> ('a \<Rightarrow> error + 'b) \<Rightarrow> (error \<Rightarrow> error + 'b) \<Rightarrow> error + 'b" where
  "then2 p f g = (case p of Inr x \<Rightarrow> f x | Inl e \<Rightarrow> g e)"

definition then1 :: "error + 'a \<Rightarrow> ('a \<Rightarrow> error + 'b) \<Rightarrow> error + 'b" where
  "then1 p f = then2 p f Inl"

text \<open>\<open>try { body } catch { return v }\<close>\<close>

definition catch :: "error + 'a \<Rightarrow> 'a \<Rightarrow> error + 'a" where
  "catch body v = (case body of Inl e \<Rightarrow> Inr v | Inr x \<Rightarrow> Inr x)"

subsection \<open>Values read from parsed JSON\<close>

text \<open>
  What \<open>JSON.parse\<close> returns is untyped: the program's type annotations on it are not
  checked at run time. A property that is not there reads as \<open>undefined\<close>. Numbers are
  kept as integers; the program only tests them for truth or prints them.
\<close>

datatype js =
    JUndefined
  | JNull
  | JBool bool
  | JNum int
  | JStr string
  | JArr "js list"
  | JObj "(string \<times> js) list"

definition truthy :: "js \<Rightarrow> bool" where
  "truthy v =
     (case v of
        JUndefined \<Rightarrow> False
      | JNull \<Rightarrow> False
      | JBool b \<Rightarrow> b
      | JNum n \<Rightarrow> n \<noteq> 0
      | JStr s \<Rightarrow> s \<noteq> []
      | JArr xs \<Rightarrow> True
      | JObj kv \<Rightarrow> True)"

definition nullish :: "js \<Rightarrow> bool" where
  "nullish v = (v = JUndefined \<or> v = JNull)"

text \<open>\<open>a || b\<close> and \<open>a ?? b\<close> on values.\<close>

definition or_js :: "js \<Rightarrow> js \<Rightarrow> js" where
  "or_js a b = (if truthy a then a else b)"

definition coalesce :: "js \<Rightarrow> js \<Rightarrow> js" where
  "coalesce a b = (if nullish a then b else a)"

text \<open>
  \<open>v.k\<close> for the property names the program reads (\<open>data\<close>, \<open>sections\<close>,
  \<open>items\<close>, \<open>name\<close>, \<open>url\<close> and so on): none of them is a built-in property of an
  array, a string, a number or a boolean, so only an object can have one.
\<close>

definition get_prop :: "js \<Rightarrow> string \<Rightarrow> error + js" where
  "get_prop v k =
     (case v of
        JUndefined \<Rightarrow> Inl TypeError
      | JNull \<Rightarrow> Inl TypeError
      | JObj kv \<Rightarrow> Inr (case map_of kv k of None \<Rightarrow> JUndefined | Some x \<Rightarrow> x)
      | _ \<Rightarrow> Inr JUndefined)"

text \<open>\<open>v?.k\<close>\<close>

definition get_prop_opt :: "js \<Rightarrow> string \<Rightarrow> error + js" where
  "get_prop_opt v k = (if nullish v then Inr JUndefined else get_prop v k)"

text \<open>\<open>v[0]\<close> and \<open>v?.[0]\<close>\<close>

definition idx0 :: "js \<Rightarrow> error + js" where
  "idx0 v =
     (case v of
        JUndefined \<Rightarrow> Inl TypeError
      | JNull \<Rightarrow> Inl TypeError
      | JArr xs \<Rightarrow> Inr (case xs of [] \<Rightarrow> JUndefined | x # _ \<Rightarrow> x)
      | JStr s \<Rightarrow> Inr (case s of [] \<Rightarrow> JUndefined | c # _ \<Rightarrow> JStr [c])
      | JObj kv \<Rightarrow> Inr (case map_of kv ''0'' of None \<Rightarrow> JUndefined | Some x \<Rightarrow> x)
      | _ \<Rightarrow> Inr JUndefined)"

definition opt_idx0 :: "js \<Rightarrow> error + js" where
  "opt_idx0 v = (if nullish v then Inr JUndefined else idx0 v)"

text \<open>
  Array methods (\<open>find\<close>, \<open>filter\<close>, \<open>map\<close>, \<open>forEach\<close>) exist on arrays only and
  string methods (\<open>split\<close>, \<open>replace\<close>) on strings only: calling one on anything else
  is a \<open>TypeError\<close>.
\<close>

definition as_array :: "js \<Rightarrow> error + js list" where
  "as_array v = (case v of JArr xs \<Rightarrow> Inr xs | _ \<Rightarrow> Inl TypeError)"

definition as_string :: "js \<Rightarrow> error + string" where
  "as_string v = (case v of JStr s \<Rightarrow> Inr s | _ \<Rightarrow> Inl TypeError)"

text \<open>The callbacks can fail; the first failure ends the traversal.\<close>

fun find_e :: "('a \<Rightarrow> error + bool) \<Rightarrow> 'a list \<Rightarrow> error + 'a option" where
  "find_e p [] = Inr None"
| "find_e p (x # xs) =
     (case p x of
        Inl e \<Rightarrow> Inl e
      | Inr b \<Rightarrow> if b then Inr (Some x) else find_e p xs)"

fun filter_e :: "('a \<Rightarrow> error + bool) \<Rightarrow> 'a list \<Rightarrow> error + 'a list" where
  "filter_e p [] = Inr []"
| "filter_e p (x # xs) =
     (case p x of
        Inl e \<Rightarrow> Inl e
      | Inr b \<Rightarrow>
          (case filter_e p xs of
             Inl e \<Rightarrow> Inl e
           | Inr ys \<Rightarrow> Inr (if b then x # ys else ys)))"

fun map_e :: "('a \<Rightarrow> error + 'b) \<Rightarrow> 'a list \<Rightarrow> error + 'b list" where
  "map_e f [] = Inr []"
| "map_e f (x # xs) =
     (case f x of
        Inl e \<Rightarrow> Inl e
      | Inr y \<Rightarrow> (case map_e f xs of Inl e \<Rightarrow> Inl e | Inr ys \<Rightarrow> Inr (y # ys)))"

subsection \<open>Strings\<close>

text \<open>\<open>s.split(sep)\<close> with a separator that is not empty, \<open>s.includes(t)\<close>, \<open>xs[i]\<close>.\<close>

fun js_split :: "string \<Rightarrow> string \<Rightarrow> string \<Rightarrow> string list" where
  "js_split sep cur [] = [cur]"
| "js_split sep cur (c # cs) =
     (if sep \<noteq> [] \<and> take (length sep) (c # cs) = sep
      then cur # js_split sep [] (drop (length sep) (c # cs))
      else js_split sep (cur @ [c]) cs)"

definition split :: "string \<Rightarrow> string \<Rightarrow> string list" where
  "split s sep = js_split sep [] s"

fun str_includes :: "string \<Rightarrow> string \<Rightarrow> bool" where
  "str_includes [] t = (t = [])"
| "str_includes (c # cs) t = (take (length t) (c # cs) = t \<or> str_includes cs t)"

definition nth_opt :: "'a list \<Rightarrow> nat \<Rightarrow> 'a option" where
  "nth_opt xs i = (if i < length xs then Some (xs ! i) else None)"

definition pop :: "'a list \<Rightarrow> 'a option" where
  "pop xs = (case xs of [] \<Rightarrow> None | _ # _ \<Rightarrow> Some (last xs))"

text \<open>\<open>a || b\<close> on strings that may be undefined: the empty string is false.\<close>

definition or_else :: "string option \<Rightarrow> string option \<Rightarrow> string option" where
  "or_else a b = (if truthy_str a then a else b)"

definition str_or :: "string option \<Rightarrow> string \<Rightarrow> string" where
  "str_or a d = (case a of None \<Rightarrow> d | Some s \<Rightarrow> if s = [] then d else s)"

text \<open>\<open>v.includes(t)\<close> on a value: substring on a string, membership on an array.\<close>

definition includes_method :: "js \<Rightarrow> string \<Rightarrow> error + bool" where
  "includes_method v t =
     (case v of
        JStr s \<Rightarrow> Inr (str_includes s t)
      | JArr xs \<Rightarrow> Inr (JStr t \<in> set xs)
      | _ \<Rightarrow> Inl TypeError)"

subsection \<open>Documents\<close>

text \<open>
  The HTML library is a collaborator: an element is what the program reads of it (its
  attributes and its three text properties) and a document is its three queries.
\<close>

record element =
  attrs :: "(string \<times> string) list"
  innerText :: string
  el_text :: string
  textContent :: string

definition getAttribute :: "element \<Rightarrow> string \<Rightarrow> string option" where
  "getAttribute el name = map_of (attrs el) name"

record document =
  getElementById :: "string \<Rightarrow> element option"
  getElementsByTagName :: "string \<Rightarrow> element list"
  querySelector :: "string \<Rightarrow> element option"

record url =
  pathname :: string
  searchParams :: "(string \<times> string) list"

text \<open>
  The network and the library functions whose results the program does not control.
  \<open>fetch\<close> resolves with a response whose body read (\<open>r.text()\<close>) may itself fail.
\<close>

record world =
  fetch :: "string \<Rightarrow> (string \<times> string) list \<Rightarrow> string + (string + string)"
  parse :: "string \<Rightarrow> string + document"
  JSON_parse :: "string \<Rightarrow> string + js"
  URL_new :: "string \<Rightarrow> string + url"
  encodeURIComponent :: "string \<Rightarrow> string + string"
  String_toUpperCase :: "string \<Rightarrow> string"
  String_trim :: "string \<Rightarrow> string"
  String_replace :: "string \<Rightarrow> string \<Rightarrow> string \<Rightarrow> string"
  Number_toString :: "int \<Rightarrow> string"

text \<open>
  The conversion of a value to a string, as a template literal and \<open>regex.exec\<close> apply
  it. A primitive converts without failing (how a number prints is the platform's). An
  array joins the conversions of its elements with commas, an absent or null element
  giving the empty string. An object parsed from JSON converts to \<open>[object Object]\<close>
  unless it has a \<open>toString\<close> entry of its own: that entry is not callable, the
  inherited \<open>valueOf\<close> returns the object, and the conversion throws.
\<close>

primrec ToString :: "(int \<Rightarrow> string) \<Rightarrow> js \<Rightarrow> error + string" where
  "ToString num JUndefined = Inr ''undefined''"
| "ToString num JNull = Inr ''null''"
| "ToString num (JBool b) = Inr (if b then ''true'' else ''false'')"
| "ToString num (JNum n) = Inr (num n)"
| "ToString num (JStr s) = Inr s"
| "ToString num (JArr xs) =
     ebind (map_e (\<lambda>p. if fst p then Inr [] else snd p)
                  (map (\<lambda>x. (nullish x, ToString num x)) xs))
           (\<lambda>parts. Inr (join '','' parts))"
| "ToString num (JObj kv) =
     (if map_of kv ''toString'' = None then Inr ''[object Object]'' else Inl TypeError)"

definition to_str :: "world \<Rightarrow> js \<Rightarrow> error + string" where
  "to_str w v = ToString (Number_toString w) v"

definition dq :: char where
  "dq = CHR 0x22"

definition bslash :: char where
  "bslash = CHR 0x5C"

definition sq :: char where
  "sq = CHR 0x27"

section \<open>The storefront client (AppleMusicAPI)\<close>

text \<open>
  A track as the client produces it. The fields are declared as strings, but three of the
  four extractors fill them from parsed JSON, so a field holds whatever value was read.
\<close>

record AppleMusicTrack =
  t_id :: js
  t_title :: js
  t_artist :: js
  t_thumbnail :: js
  t_duration :: js
  t_url :: js

record AppleMusicCollection =
  c_id :: "string option"
  c_title :: string
  c_description :: "string option"
  c_artwork :: string
  c_tracks :: "AppleMusicTrack list"
  c_url :: "string option"
  c_artist :: js

definition UA :: string where
  "UA = ''Mozilla/5.0 (Windows NT 10.0; Win64; x64) AppleWebKit/537.36 (KHTML, like Gecko) Chrome/109.0.0.0 Safari/537.36 Edg/109.0.1518.49''"

definition favicon :: string where
  "favicon = ''https://music.apple.com/assets/favicon/favicon-180.png''"

subsection \<open>getHTML\<close>

text \<open>
  \<open>fetch(link, headers).then(r => r.text()).then(txt => parse(txt), () => null)\<close>:
  \<open>None\<close> is the null result.
\<close>

definition getHTML :: "world \<Rightarrow> string \<Rightarrow> error + document option" where
  "getHTML w link =
     then2 (then1 (lift (fetch w link [(''User-Agent'', UA)])) (\<lambda>r. lift r))
           (\<lambda>txt. ebind (lift (parse w txt)) (\<lambda>d. Inr (Some d)))
           (\<lambda>e. Inr None)"

subsection \<open>makeImage\<close>

definition makeImage :: "world \<Rightarrow> js \<Rightarrow> js \<Rightarrow> js \<Rightarrow> string option \<Rightarrow> error + string" where
  "makeImage w u width height ext =
     ebind (as_string u) (\<lambda>s.
     ebind (to_str w width) (\<lambda>ws.
     ebind (to_str w height) (\<lambda>hs.
       Inr (String_replace w
              (String_replace w (String_replace w s ''{w}'' ws) ''{h}'' hs)
              ''{f}'' (case ext of None \<Rightarrow> ''jpg'' | Some x \<Rightarrow> x)))))"

subsection \<open>search\<close>

definition search_thumbnail :: "world \<Rightarrow> js \<Rightarrow> error + string" where
  "search_thumbnail w track =
     ebind (get_prop_opt track ''artwork'') (\<lambda>artwork.
     ebind (get_prop_opt artwork ''dictionary'') (\<lambda>dictionary.
       if truthy dictionary then
         ebind (get_prop dictionary ''url'') (\<lambda>u.
         ebind (get_prop dictionary ''height'') (\<lambda>h.
         ebind (get_prop dictionary ''width'') (\<lambda>wd.
           makeImage w u wd h None)))
       else Inr favicon))"

definition search_artist :: "js \<Rightarrow> error + js" where
  "search_artist track =
     ebind (get_prop track ''subtitleLinks'') (\<lambda>links.
     ebind (opt_idx0 links) (\<lambda>first.
     ebind (get_prop_opt first ''title'') (\<lambda>t.
       Inr (coalesce t (JStr ''Unknown Artist'')))))"

definition search_track :: "world \<Rightarrow> js \<Rightarrow> error + AppleMusicTrack" where
  "search_track w track =
     ebind (get_prop track ''contentDescriptor'') (\<lambda>cd.
     ebind (get_prop cd ''identifiers'') (\<lambda>ids.
     ebind (get_prop ids ''storeAdamID'') (\<lambda>sid.
     ebind (get_prop track ''duration'') (\<lambda>d.
     ebind (get_prop track ''title'') (\<lambda>ttl.
     ebind (get_prop cd ''url'') (\<lambda>u.
     ebind (search_thumbnail w track) (\<lambda>thumb.
     ebind (search_artist track) (\<lambda>art.
       Inr \<lparr>t_id = sid, t_title = ttl, t_artist = art, t_thumbnail = JStr thumb,
            t_duration = or_js d (JStr ''0:00''), t_url = u\<rparr>))))))))"

definition search_items :: "js \<Rightarrow> error + js" where
  "search_items parsed =
     ebind (idx0 parsed) (\<lambda>first.
     ebind (get_prop first ''data'') (\<lambda>d.
     ebind (get_prop d ''sections'') (\<lambda>data.
     ebind (as_array data) (\<lambda>sections.
     ebind (find_e (\<lambda>s. ebind (get_prop s ''itemKind'') (\<lambda>k. Inr (k = JStr ''trackLockup'')))
                   sections) (\<lambda>found.
       case found of None \<Rightarrow> Inr JUndefined | Some s \<Rightarrow> get_prop s ''items'')))))"

definition search_of_page :: "world \<Rightarrow> document \<Rightarrow> error + AppleMusicTrack list" where
  "search_of_page w node =
     (case getElementById node ''serialized-server-data'' of
        None \<Rightarrow> Inr []
      | Some rawData \<Rightarrow>
          ebind (lift (JSON_parse w (innerText rawData))) (\<lambda>parsed.
          ebind (search_items parsed) (\<lambda>tracks.
            if \<not> truthy tracks then Inr []
            else ebind (as_array tracks) (map_e (search_track w)))))"

text \<open>The body of the \<open>try\<close>; whatever fails in it, the result is the empty list.\<close>

definition search_body :: "world \<Rightarrow> string \<Rightarrow> error + AppleMusicTrack list" where
  "search_body w query =
     ebind (lift (encodeURIComponent w query)) (\<lambda>term.
     ebind (getHTML w (''https://music.apple.com/us/search?term='' @ term)) (\<lambda>node.
       case node of
         None \<Rightarrow> Inr []
       | Some doc \<Rightarrow> search_of_page w doc))"

definition search :: "world \<Rightarrow> string \<Rightarrow> error + AppleMusicTrack list" where
  "search w query = catch (search_body w query) []"

subsection \<open>getSongInfo\<close>

definition song_id_name :: "url \<Rightarrow> string option \<times> string option" where
  "song_id_name u =
     (if str_includes (pathname u) ''/album/'' then
        (map_of (searchParams u) ''i'',
         Option.bind (nth_opt (split (pathname u) ''album/'') 1) (\<lambda>x. nth_opt (split x ''/'') 0))
      else if str_includes (pathname u) ''/song/'' then
        (let parts = map_option (\<lambda>x. split x ''/'') (nth_opt (split (pathname u) ''/song/'') 1)
         in (Option.bind parts (\<lambda>ps. nth_opt ps 1), Option.bind parts (\<lambda>ps. nth_opt ps 0)))
      else (None, None))"

definition find_meta :: "element list \<Rightarrow> string \<Rightarrow> string \<Rightarrow> element option" where
  "find_meta metaTags a v = List.find (\<lambda>r. getAttribute r a = Some v) metaTags"

definition content_of :: "element option \<Rightarrow> string option" where
  "content_of e = Option.bind e (\<lambda>x. getAttribute x ''content'')"

text \<open>
  The duration: the structured meta tag through \<open>parseDuration\<close>, else the text after
  \<open>Duration: \<close> in the description up to the next double quote, else \<open>0:00\<close>. A
  description without \<open>Duration: \<close> makes the second \<open>split\<close> a call on
  \<open>undefined\<close>.
\<close>

definition song_duration :: "element list \<Rightarrow> error + string" where
  "song_duration metaTags =
     (let durationRaw = content_of (find_meta metaTags ''property'' ''music:song:duration'');
          described =
            (case find_meta metaTags ''name'' ''apple:description'' of
               None \<Rightarrow> Inr ''0:00''
             | Some m \<Rightarrow>
                 (case nth_opt (split (textContent m) ''Duration: '') 1 of
                    None \<Rightarrow> Inl TypeError
                  | Some x \<Rightarrow> Inr (str_or (nth_opt (split x [dq]) 0) ''0:00'')))
      in case durationRaw of
           None \<Rightarrow> described
         | Some s \<Rightarrow> if s = [] then described else Inr (parseDuration s))"

definition artist_regex :: regex where
  "artist_regex = Seq (lit ''/artist/'') (Cap ''1'' (Plus True (NCls [(CHR ''/'', CHR ''/'')])))"

definition capitalize :: "world \<Rightarrow> string \<Rightarrow> string" where
  "capitalize w wd = String_toUpperCase w (take 1 wd) @ drop 1 wd"

definition song_artist :: "world \<Rightarrow> document \<Rightarrow> string" where
  "song_artist w res =
     (let subtitle =
            str_or (map_option (\<lambda>a. String_trim w (textContent a))
                               (querySelector res ''.song-subtitles__artists>a''))
                   ''Apple Music''
      in case querySelector res (''meta[property='' @ [sq] @ ''music:musician'' @ [sq] @ '']'') of
           None \<Rightarrow> subtitle
         | Some metaMusician \<Rightarrow>
             (case getAttribute metaMusician ''content'' of
                None \<Rightarrow> subtitle
              | Some artistUrl \<Rightarrow>
                  if artistUrl = [] then subtitle
                  else
                    (case exec artist_regex artistUrl of
                       None \<Rightarrow> subtitle
                     | Some st \<Rightarrow>
                         (case groups (snd (snd st)) ''1'' of
                            None \<Rightarrow> subtitle
                          | Some m1 \<Rightarrow>
                              if m1 = [] then subtitle
                              else join '' '' (map (capitalize w) (split m1 ''-''))))))"

definition song_of_page ::
  "world \<Rightarrow> document \<Rightarrow> string \<Rightarrow> string \<Rightarrow> string \<Rightarrow> error + AppleMusicTrack option" where
  "song_of_page w res ident name songURL =
     (let metaTags = getElementsByTagName res ''meta''
      in if metaTags = [] then Inr None
         else
           (let title =
                  or_else
                    (or_else (content_of (find_meta metaTags ''name'' ''apple:title''))
                             (map_option innerText (querySelector res ''title'')))
                    (Some name);
                contentId = str_or (content_of (find_meta metaTags ''name'' ''apple:content_id'')) ident
            in ebind (song_duration metaTags) (\<lambda>d.
                 Inr (Some
                   \<lparr>t_id = JStr contentId,
                    t_title = JStr (str_or title ''Unknown Title''),
                    t_artist = JStr (song_artist w res),
                    t_thumbnail =
                      JStr (str_or
                              (content_of
                                 (List.find
                                    (\<lambda>r. getAttribute r ''property''
                                           \<in> set [Some ''og:image:secure_url'', Some ''og:image''])
                                    metaTags))
                              favicon),
                    t_duration = JStr d,
                    t_url = JStr songURL\<rparr>))))"

text \<open>
  \<open>new URL(link)\<close> is outside the \<open>try\<close>. The song address is only used once the
  identifier and the slug are both known to be non-empty strings.
\<close>

definition song_fetch :: "world \<Rightarrow> string \<Rightarrow> string \<Rightarrow> error + AppleMusicTrack option" where
  "song_fetch w ident name =
     (let songURL = ''https://music.apple.com/us/song/'' @ name @ ''/'' @ ident
      in ebind (getHTML w songURL) (\<lambda>res.
           case res of
             None \<Rightarrow> Inr None
           | Some doc \<Rightarrow> catch (song_of_page w doc ident name songURL) None))"

definition getSongInfo :: "world \<Rightarrow> string \<Rightarrow> error + AppleMusicTrack option" where
  "getSongInfo w link =
     ebind (lift (URL_new w link)) (\<lambda>u.
       case song_id_name u of
         (Some ident, Some name) \<Rightarrow>
           if ident = [] \<or> name = [] then Inr None else song_fetch w ident name
       | _ \<Rightarrow> Inr None)"

subsection \<open>getPlaylistInfo\<close>

definition meta_property :: "string \<Rightarrow> string" where
  "meta_property v = ''meta[property='' @ [dq] @ v @ [dq] @ '']''"

definition meta_name :: "string \<Rightarrow> string" where
  "meta_name v = ''meta[name='' @ [dq] @ v @ [dq] @ '']''"

definition playlist_selector :: string where
  "playlist_selector = ''script#schema'' @ [bslash] @ '':music-playlist''"

definition album_selector :: string where
  "album_selector = ''script#schema'' @ [bslash] @ '':music-album''"

text \<open>The artist names of the track list in the serialized data, in list order.\<close>

definition playlist_artist_names :: "world \<Rightarrow> string \<Rightarrow> error + js list" where
  "playlist_artist_names w txt =
     ebind (lift (JSON_parse w txt)) (\<lambda>jsonData.
     ebind (idx0 jsonData) (\<lambda>first.
     ebind (get_prop first ''data'') (\<lambda>d.
     ebind (get_prop d ''sections'') (\<lambda>secs.
     ebind (as_array secs) (\<lambda>sections.
     ebind (find_e (\<lambda>section. ebind (get_prop section ''id'')
                                     (\<lambda>i. includes_method i ''track-list''))
                   sections) (\<lambda>found.
     ebind (case found of None \<Rightarrow> Inl TypeError | Some s \<Rightarrow> get_prop s ''items'') (\<lambda>items.
     ebind (as_array items) (\<lambda>its.
     ebind (filter_e (\<lambda>item. ebind (get_prop item ''id'')
                                    (\<lambda>i. includes_method i ''track-lockup''))
                     its) (\<lambda>kept.
       map_e (\<lambda>i. get_prop i ''artistName'') kept)))))))))"

definition playlist_track :: "world \<Rightarrow> js list \<Rightarrow> nat \<times> js \<Rightarrow> error + AppleMusicTrack" where
  "playlist_track w artistNames it =
     (let index = fst it; track = snd it;
          listed = (case nth_opt artistNames index of None \<Rightarrow> JUndefined | Some v \<Rightarrow> v)
      in ebind (if truthy listed then Inr listed
                else ebind (get_prop track ''byArtist'') (\<lambda>by.
                     ebind (get_prop_opt by ''name'') (\<lambda>n.
                       Inr (or_js n (JStr ''Unknown Artist''))))) (\<lambda>artist.
         ebind (get_prop track ''url'') (\<lambda>u.
         ebind (as_string u) (\<lambda>us.
         ebind (get_prop track ''name'') (\<lambda>nm.
         ebind (get_prop track ''duration'') (\<lambda>d.
         ebind (to_str w (or_js d (JStr ''PT0S''))) (\<lambda>ds.
           Inr \<lparr>t_id = JStr (str_or (pop (split us ''/'')) ''''),
                t_title = or_js nm (JStr ''Unknown Title''),
                t_artist = artist,
                t_thumbnail = JStr favicon,
                t_duration = JStr (parseDuration ds),
                t_url = or_js u (JStr '''')\<rparr>)))))))"

text \<open>
  The serialized data is parsed inside a \<open>try\<close> with an empty \<open>catch\<close>; the JSON-LD
  block is parsed, and its tracks are read, outside any \<open>try\<close>.
\<close>

definition playlist_tracks :: "world \<Rightarrow> js list \<Rightarrow> element option \<Rightarrow> error + AppleMusicTrack list" where
  "playlist_tracks w artistNames jsonLdElement =
     (case jsonLdElement of
        None \<Rightarrow> Inr []
      | Some e \<Rightarrow>
          ebind (lift (JSON_parse w (el_text e))) (\<lambda>jsonLd.
            if truthy jsonLd then
              ebind (get_prop jsonLd ''track'') (\<lambda>tr.
                if truthy tr
                then ebind (as_array tr) (\<lambda>ts. map_e (playlist_track w artistNames) (enumerate 0 ts))
                else Inr [])
            else Inr []))"

definition playlist_of_page :: "world \<Rightarrow> document \<Rightarrow> string \<Rightarrow> error + AppleMusicCollection option" where
  "playlist_of_page w root link =
     (let title = (case querySelector root (meta_property ''og:title'') of
                     Some e \<Rightarrow> getAttribute e ''content'' | None \<Rightarrow> Some ''Unknown Title'');
          description = (case querySelector root (meta_property ''og:description'') of
                     Some e \<Rightarrow> getAttribute e ''content'' | None \<Rightarrow> Some ''No Description'');
          artwork = (case querySelector root (meta_property ''og:image'') of
                     Some e \<Rightarrow> getAttribute e ''content'' | None \<Rightarrow> Some []);
          jsonLdElement = querySelector root playlist_selector;
          artistNames =
            (case querySelector root ''script#serialized-server-data'' of
               None \<Rightarrow> []
             | Some s \<Rightarrow>
                 (case playlist_artist_names w (el_text s) of
                    Inl e \<Rightarrow> [] | Inr names \<Rightarrow> names))
      in ebind (playlist_tracks w artistNames jsonLdElement) (\<lambda>tracks.
           Inr (Some
             \<lparr>c_id = None,
              c_title = str_or title ''Unknown Album'',
              c_description = description,
              c_artwork = str_or artwork favicon,
              c_tracks = tracks,
              c_url = Some link,
              c_artist = JUndefined\<rparr>)))"

definition getPlaylistInfo :: "world \<Rightarrow> string \<Rightarrow> error + AppleMusicCollection option" where
  "getPlaylistInfo w link =
     ebind (getHTML w link) (\<lambda>root.
       case root of
         None \<Rightarrow> Inr None
       | Some doc \<Rightarrow> playlist_of_page w doc link)"

subsection \<open>getAlbumInfo\<close>

definition album_track :: "world \<Rightarrow> string option \<Rightarrow> js \<Rightarrow> js \<Rightarrow> error + AppleMusicTrack" where
  "album_track w thumbnail artistName track =
     ebind (get_prop track ''url'') (\<lambda>u.
     ebind (as_string u) (\<lambda>us.
     ebind (get_prop track ''duration'') (\<lambda>d.
     ebind (to_str w (or_js d (JStr ''PT0S''))) (\<lambda>ds.
     ebind (get_prop track ''name'') (\<lambda>nm.
       Inr \<lparr>t_id = JStr (str_or (pop (split us ''/'')) ''''),
            t_title = or_js nm (JStr ''Unknown Title''),
            t_artist = artistName,
            t_thumbnail = JStr (str_or thumbnail favicon),
            t_duration = JStr (parseDuration ds),
            t_url = or_js u (JStr '''')\<rparr>)))))"

text \<open>The artist and the tracks read from the JSON-LD block, when the page has one.\<close>

definition album_json_ld ::
  "world \<Rightarrow> string option \<Rightarrow> element option \<Rightarrow> error + js \<times> AppleMusicTrack list" where
  "album_json_ld w thumbnail jsonLdElement =
     (case jsonLdElement of
        None \<Rightarrow> Inr (JStr ''Unknown Artist'', [])
      | Some e \<Rightarrow>
          ebind (lift (JSON_parse w (el_text e))) (\<lambda>jsonLd.
          ebind (get_prop jsonLd ''byArtist'') (\<lambda>by.
          ebind (idx0 by) (\<lambda>first.
          ebind (get_prop first ''name'') (\<lambda>artistName.
          ebind (if truthy jsonLd then
                   ebind (get_prop jsonLd ''tracks'') (\<lambda>tr.
                     if truthy tr
                     then ebind (as_array tr) (map_e (album_track w thumbnail artistName))
                     else Inr [])
                 else Inr []) (\<lambda>tracks.
            Inr (artistName, tracks)))))))"

definition album_of_page :: "world \<Rightarrow> document \<Rightarrow> string \<Rightarrow> error + AppleMusicCollection option" where
  "album_of_page w root link =
     (let title = (case querySelector root (meta_name ''apple:title'') of
                     Some e \<Rightarrow> getAttribute e ''content'' | None \<Rightarrow> Some ''Unknown Album'');
          thumbnail = (case querySelector root (meta_property ''og:image'') of
                     Some e \<Rightarrow> getAttribute e ''content'' | None \<Rightarrow> Some favicon)
      in ebind (album_json_ld w thumbnail (querySelector root album_selector)) (\<lambda>ld.
           Inr (Some
             \<lparr>c_id = Some (str_or (content_of (querySelector root (meta_name ''apple:content_id''))) ''''),
              c_title = str_or title ''Unknown Album'',
              c_description = title,
              c_artwork = str_or thumbnail favicon,
              c_tracks = snd ld,
              c_url = Some link,
              c_artist = fst ld\<rparr>)))"

text \<open>\<open>link.split("?")[0]\<close>\<close>

definition strip_query :: "string \<Rightarrow> string" where
  "strip_query link = (case split link ''?'' of [] \<Rightarrow> [] | x # _ \<Rightarrow> x)"

definition getAlbumInfo :: "world \<Rightarrow> string \<Rightarrow> error + AppleMusicCollection option" where
  "getAlbumInfo w link =
     ebind (getHTML w (strip_query link)) (\<lambda>root.
       case root of
         None \<Rightarrow> Inr None
       | Some doc \<Rightarrow> catch (album_of_page w doc link) None)"

section \<open>The extractor (AppleMusicExtractor)\<close>

subsection \<open>Objects of the host framework\<close>

text \<open>
  The host's track and playlist objects are kept as the data the extractor builds them
  from. A track refers to its playlist by the playlist's own data; the playlist's track
  list is filled after the playlist is built. \<open>createResponse\<close> is the host's: it pairs
  a playlist, or none, with a list of tracks, which is empty when none is given.
\<close>

datatype collection_type = Album | Playlist

record PlaylistData =
  pl_author_name :: js
  pl_author_url :: string
  pl_description :: string
  pl_id :: string
  pl_source :: string
  pl_thumbnail :: string
  pl_title :: string
  pl_type :: collection_type
  pl_url :: string
  pl_rawPlaylist :: AppleMusicCollection

record 'u Track =
  tr_author :: js
  tr_description :: js
  tr_duration :: js
  tr_thumbnail :: js
  tr_title :: js
  tr_url :: js
  tr_views :: nat
  tr_source :: string
  tr_requestedBy :: 'u
  tr_metadata :: AppleMusicTrack
  tr_playlist :: "PlaylistData option"

record 'u HostPlaylist =
  pl_data :: PlaylistData
  pl_tracks :: "'u Track list"

record 'u ExtractorInfo =
  playlist :: "'u HostPlaylist option"
  tracks :: "'u Track list"

record 'u ExtractorSearchContext =
  requestedBy :: 'u

definition createResponse :: "'u HostPlaylist option \<Rightarrow> 'u Track list option \<Rightarrow> 'u ExtractorInfo" where
  "createResponse p ts =
     \<lparr>playlist = p,
      tracks = (case ts of
                  Some t \<Rightarrow> t
                | None \<Rightarrow> (case p of None \<Rightarrow> [] | Some q \<Rightarrow> pl_tracks q))\<rparr>"

subsection \<open>validate\<close>

definition isUrl :: "world \<Rightarrow> string \<Rightarrow> bool" where
  "isUrl w u = (case URL_new w u of Inl e \<Rightarrow> False | Inr x \<Rightarrow> True)"

definition validate :: "world \<Rightarrow> string \<Rightarrow> bool" where
  "validate w query =
     (\<not> isUrl w query \<or>
      list_ex (\<lambda>regex. test regex query)
              [appleMusicAlbumRegex, appleMusicPlaylistRegex, appleMusicSongRegex])"

subsection \<open>buildTrack, buildPlaylist, handle\<close>

definition buildTrack ::
  "AppleMusicTrack \<Rightarrow> 'u ExtractorSearchContext \<Rightarrow> PlaylistData option \<Rightarrow> 'u Track" where
  "buildTrack trackInfo ctx pl =
     \<lparr>tr_author = t_artist trackInfo,
      tr_description = t_title trackInfo,
      tr_duration = t_duration trackInfo,
      tr_thumbnail = t_thumbnail trackInfo,
      tr_title = t_title trackInfo,
      tr_url = t_url trackInfo,
      tr_views = 0,
      tr_source = ''apple_music'',
      tr_requestedBy = requestedBy ctx,
      tr_metadata = trackInfo,
      tr_playlist = pl\<rparr>"

definition buildPlaylist ::
  "AppleMusicCollection \<Rightarrow> 'u ExtractorSearchContext \<Rightarrow> collection_type \<Rightarrow> 'u HostPlaylist" where
  "buildPlaylist data ctx ty =
     (let header =
            \<lparr>pl_author_name =
               (if ty = Album then c_artist data
                else (case c_description data of None \<Rightarrow> JUndefined | Some s \<Rightarrow> JStr s)),
             pl_author_url = '''',
             pl_description = str_or (c_description data) (c_title data),
             pl_id = str_or (c_id data) '''',
             pl_source = ''apple_music'',
             pl_thumbnail = c_artwork data,
             pl_title = c_title data,
             pl_type = ty,
             pl_url = str_or (c_url data) '''',
             pl_rawPlaylist = data\<rparr>
      in \<lparr>pl_data = header,
          pl_tracks = map (\<lambda>track. buildTrack track ctx (Some header)) (c_tracks data)\<rparr>)"

text \<open>
  The queries are tried in the order song, album, playlist; anything else is searched.
  (The song branch also logs what it found.)
\<close>

definition handle :: "world \<Rightarrow> string \<Rightarrow> 'u ExtractorSearchContext \<Rightarrow> error + 'u ExtractorInfo" where
  "handle w query ctx =
     (if test appleMusicSongRegex query then
        ebind (getSongInfo w query) (\<lambda>info.
          case info of
            None \<Rightarrow> Inr (createResponse None None)
          | Some i \<Rightarrow> Inr (createResponse None (Some [buildTrack i ctx None])))
      else if test appleMusicAlbumRegex query then
        ebind (getAlbumInfo w query) (\<lambda>info.
          case info of
            None \<Rightarrow> Inr (createResponse None None)
          | Some i \<Rightarrow>
              (let p = buildPlaylist i ctx Album
               in Inr (createResponse (Some p) (Some (pl_tracks p)))))
      else if test appleMusicPlaylistRegex query then
        ebind (getPlaylistInfo w query) (\<lambda>info.
          case info of
            None \<Rightarrow> Inr (createResponse None None)
          | Some i \<Rightarrow>
              (let p = buildPlaylist i ctx Playlist
               in Inr (createResponse (Some p) (Some (pl_tracks p)))))
      else
        ebind (search w query) (\<lambda>data.
          if data = [] then Inr (createResponse None None)
          else Inr (createResponse None (Some (map (\<lambda>track. buildTrack track ctx None) data)))))"

subsection \<open>activate, deactivate, stream\<close>

text \<open>
  What a stream request resolves with: a readable handle, a string address, or a handle
  with its format. The configured function is given the extractor (here: its protocols),
  the track's address and the track; it and the bridge are collaborators whose failures
  carry their own reason.
\<close>

datatype 'r streamable = Readable 'r | Address string | Formatted string 'r

type_synonym ('u, 'r) StreamFN = "js \<Rightarrow> 'u Track \<Rightarrow> string + 'r streamable"

record ('u, 'r) AppleMusicExtractorInit =
  createStream :: "(string list \<Rightarrow> js \<Rightarrow> 'u Track \<Rightarrow> string + 'r streamable) option"

record ('u, 'r) extractor =
  options :: "('u, 'r) AppleMusicExtractorInit"
  protocols :: "string list"
  stream_fn :: "(string list \<Rightarrow> js \<Rightarrow> 'u Track \<Rightarrow> string + 'r streamable) option"

record 'r bridge_result =
  br_result :: "'r streamable option"

definition new_extractor :: "('u, 'r) AppleMusicExtractorInit \<Rightarrow> ('u, 'r) extractor" where
  "new_extractor opts = \<lparr>options = opts, protocols = [], stream_fn = None\<rparr>"

definition activate :: "('u, 'r) extractor \<Rightarrow> ('u, 'r) extractor" where
  "activate this =
     (let this1 = this\<lparr>protocols := [''amsearch'', ''applemusic'']\<rparr>
      in case createStream (options this1) of
           Some fn \<Rightarrow> this1\<lparr>stream_fn := Some fn\<rparr>
         | None \<Rightarrow> this1)"

definition deactivate :: "('u, 'r) extractor \<Rightarrow> ('u, 'r) extractor" where
  "deactivate this = this\<lparr>protocols := []\<rparr>"

definition usable :: "'r bridge_result option \<Rightarrow> 'r streamable option" where
  "usable r =
     (case r of
        None \<Rightarrow> None
      | Some b \<Rightarrow>
          (case br_result b of
             None \<Rightarrow> None
           | Some s \<Rightarrow> if s = Address [] then None else Some s))"

definition stream ::
  "('u, 'r) extractor \<Rightarrow> ('u Track \<Rightarrow> string + 'r bridge_result option) \<Rightarrow> 'u Track
     \<Rightarrow> error + 'r streamable" where
  "stream this requestBridge info =
     (case stream_fn this of
        Some f \<Rightarrow> lift (f (protocols this) (tr_url info) info)
      | None \<Rightarrow>
          ebind (lift (requestBridge info)) (\<lambda>r.
            case usable r of
              None \<Rightarrow> Inl (Thrown ''Could not bridge this track'')
            | Some s \<Rightarrow> Inr s))"

section \<open>A small storefront to run the program on\<close>

text \<open>
  A fixed world with a handful of pages, used to run the functions above on concrete
  input: an album page with three tracks by \<open>Artist X\<close>, a playlist page, a playlist
  page whose JSON-LD block is not JSON, a playlist page without a JSON-LD block, a song
  page, a search page with an item that has no title, an address whose body cannot be
  read and one whose text the HTML parser refuses. Every other address is unreachable.
\<close>

definition script :: "string \<Rightarrow> element" where
  "script txt = \<lparr>attrs = [], innerText = txt, el_text = txt, textContent = txt\<rparr>"

definition meta :: "string \<Rightarrow> string \<Rightarrow> string \<Rightarrow> element" where
  "meta k v content =
     \<lparr>attrs = [(k, v), (''content'', content)], innerText = [], el_text = [], textContent = []\<rparr>"

definition album_link :: string where
  "album_link = ''https://music.apple.com/us/album/foo/123''"

definition playlist_link :: string where
  "playlist_link = ''https://music.apple.com/us/playlist/mix/pl.u-abc''"

definition bad_playlist_link :: string where
  "bad_playlist_link = ''https://music.apple.com/us/playlist/bad/pl.u-bad''"

definition bare_playlist_link :: string where
  "bare_playlist_link = ''https://music.apple.com/us/playlist/bare/pl.u-bare''"

definition song_link :: string where
  "song_link = ''https://music.apple.com/us/album/foo/123?i=456''"

definition song_page_link :: string where
  "song_page_link = ''https://music.apple.com/us/song/foo/456''"

definition search_link :: string where
  "search_link = ''https://music.apple.com/us/search?term=foo''"

definition cut_link :: string where
  "cut_link = ''https://music.apple.com/us/album/cut/1''"

definition garbled_link :: string where
  "garbled_link = ''https://music.apple.com/us/album/garbled/2''"

definition album_tracks :: "js list" where
  "album_tracks =
     [JObj [(''url'', JStr ''https://music.apple.com/us/song/one/1001''),
            (''name'', JStr ''One''), (''duration'', JStr ''PT3M5S'')],
      JObj [(''url'', JStr ''https://music.apple.com/us/song/two/1002'')],
      JObj [(''url'', JStr ''https://music.apple.com/us/song/three/1003''),
            (''name'', JStr ''Three''), (''duration'', JStr ''PT1H2M3S'')]]"

definition album_json :: js where
  "album_json =
     JObj [(''byArtist'', JArr [JObj [(''name'', JStr ''Artist X'')]]),
           (''tracks'', JArr album_tracks)]"

definition playlist_json :: js where
  "playlist_json =
     JObj [(''track'',
            JArr [JObj [(''url'', JStr ''https://music.apple.com/us/song/one/1001''),
                        (''name'', JStr ''One''), (''duration'', JStr ''PT45S'')],
                  JObj [(''url'', JStr ''https://music.apple.com/us/song/two/1002''),
                        (''byArtist'', JObj [(''name'', JStr ''Artist Y'')])]])]"

definition search_json :: js where
  "search_json =
     JArr [JObj [(''data'',
       JObj [(''sections'',
         JArr [JObj [(''itemKind'', JStr ''trackLockup''),
                     (''items'',
                      JArr [JObj [(''contentDescriptor'',
                                   JObj [(''identifiers'', JObj [(''storeAdamID'', JStr ''1001'')]),
                                         (''url'', JStr ''https://music.apple.com/us/song/one/1001'')])]])]])])]]"

definition album_page :: document where
  "album_page =
     \<lparr>getElementById = (\<lambda>i. None),
      getElementsByTagName = (\<lambda>t. []),
      querySelector = (\<lambda>s. if s = album_selector then Some (script ''album-ld'') else None)\<rparr>"

definition playlist_page :: document where
  "playlist_page =
     \<lparr>getElementById = (\<lambda>i. None),
      getElementsByTagName = (\<lambda>t. []),
      querySelector = (\<lambda>s. if s = playlist_selector then Some (script ''playlist-ld'') else None)\<rparr>"

definition bad_playlist_page :: document where
  "bad_playlist_page =
     \<lparr>getElementById = (\<lambda>i. None),
      getElementsByTagName = (\<lambda>t. []),
      querySelector = (\<lambda>s. if s = playlist_selector then Some (script ''{not json'') else None)\<rparr>"

definition bare_page :: document where
  "bare_page =
     \<lparr>getElementById = (\<lambda>i. None),
      getElementsByTagName = (\<lambda>t. []),
      querySelector = (\<lambda>s. None)\<rparr>"

definition song_page :: document where
  "song_page =
     \<lparr>getElementById = (\<lambda>i. None),
      getElementsByTagName =
        (\<lambda>t. if t = ''meta''
             then [meta ''name'' ''apple:title'' ''One'',
                   meta ''property'' ''music:song:duration'' ''PT3M5S'']
             else []),
      querySelector = (\<lambda>s. None)\<rparr>"

definition search_page :: document where
  "search_page =
     \<lparr>getElementById =
        (\<lambda>i. if i = ''serialized-server-data'' then Some (script ''search-data'') else None),
      getElementsByTagName = (\<lambda>t. []),
      querySelector = (\<lambda>s. None)\<rparr>"

definition storefront_fetch :: "string \<Rightarrow> (string \<times> string) list \<Rightarrow> string + (string + string)" where
  "storefront_fetch link headers =
     (if link = album_link then Inr (Inr ''album'')
      else if link = playlist_link then Inr (Inr ''playlist'')
      else if link = bad_playlist_link then Inr (Inr ''bad-playlist'')
      else if link = bare_playlist_link then Inr (Inr ''bare'')
      else if link = song_page_link then Inr (Inr ''song'')
      else if link = search_link then Inr (Inr ''search'')
      else if link = cut_link then Inr (Inl ''connection reset'')
      else if link = garbled_link then Inr (Inr ''garbled'')
      else Inl ''unreachable'')"

definition storefront_parse :: "string \<Rightarrow> string + document" where
  "storefront_parse txt =
     (if txt = ''album'' then Inr album_page
      else if txt = ''playlist'' then Inr playlist_page
      else if txt = ''bad-playlist'' then Inr bad_playlist_page
      else if txt = ''song'' then Inr song_page
      else if txt = ''search'' then Inr search_page
      else if txt = ''garbled'' then Inl ''unexpected input''
      else Inr bare_page)"

definition storefront_JSON :: "string \<Rightarrow> string + js" where
  "storefront_JSON txt =
     (if txt = ''album-ld'' then Inr album_json
      else if txt = ''playlist-ld'' then Inr playlist_json
      else if txt = ''search-data'' then Inr search_json
      else Inl ''Unexpected token'')"

definition storefront_URL :: "string \<Rightarrow> string + url" where
  "storefront_URL link =
     (if link = album_link then Inr \<lparr>pathname = ''/us/album/foo/123'', searchParams = []\<rparr>
      else if link = song_link
        then Inr \<lparr>pathname = ''/us/album/foo/123'', searchParams = [(''i'', ''456'')]\<rparr>
      else if take 4 link = ''http'' then Inr \<lparr>pathname = ''/'', searchParams = []\<rparr>
      else Inl ''Invalid URL'')"

definition storefront_world :: world where
  "storefront_world =
     \<lparr>fetch = storefront_fetch,
      parse = storefront_parse,
      JSON_parse = storefront_JSON,
      URL_new = storefront_URL,
      encodeURIComponent = Inr,
      String_toUpperCase = (\<lambda>s. s),
      String_trim = (\<lambda>s. s),
      String_replace = (\<lambda>s p x. s),
      Number_toString = (\<lambda>n. [])\<rparr>"

definition a_track :: "unit Track" where
  "a_track =
     buildTrack
       \<lparr>t_id = JStr ''1001'', t_title = JStr ''One'', t_artist = JStr ''Artist X'',
        t_thumbnail = JStr favicon, t_duration = JStr ''3:05'',
        t_url = JStr ''https://music.apple.com/us/song/one/1001''\<rparr>
       \<lparr>requestedBy = ()\<rparr> None"

definition silent_options :: "(unit, nat) AppleMusicExtractorInit" where
  "silent_options = \<lparr>createStream = None\<rparr>"

definition custom_options :: "(unit, nat) AppleMusicExtractorInit" where
  "custom_options = \<lparr>createStream = Some (\<lambda>p u t. Inr (Address ''https://cdn.example/one.mp3''))\<rparr>"

definition unprefixed_playlist_link :: string where
  "unprefixed_playlist_link = ''https://music.apple.com/us/playlist/foo/abc123''"

definition song1 :: AppleMusicTrack where
  "song1 =
     \<lparr>t_id = JStr ''456'', t_title = JStr ''One'', t_artist = JStr ''Apple Music'',
      t_thumbnail = JStr favicon, t_duration = JStr ''3:05'',
      t_url = JStr ''https://music.apple.com/us/song/foo/456''\<rparr>"

definition untitled :: AppleMusicTrack where
  "untitled =
     \<lparr>t_id = JStr ''1001'', t_title = JUndefined, t_artist = JStr ''Unknown Artist'',
      t_thumbnail = JStr favicon, t_duration = JStr ''0:00'',
      t_url = JStr ''https://music.apple.com/us/song/one/1001''\<rparr>"



text \<open>What the extractors return on the album page and on the playlist page.\<close>

definition album_track1 :: AppleMusicTrack where
  "album_track1 =
     \<lparr>t_id = JStr ''1001'', t_title = JStr ''One'', t_artist = JStr ''Artist X'',
      t_thumbnail = JStr favicon, t_duration = JStr ''3:05'',
      t_url = JStr ''https://music.apple.com/us/song/one/1001''\<rparr>"

definition album_track2 :: AppleMusicTrack where
  "album_track2 =
     \<lparr>t_id = JStr ''1002'', t_title = JStr ''Unknown Title'', t_artist = JStr ''Artist X'',
      t_thumbnail = JStr favicon, t_duration = JStr ''0'',
      t_url = JStr ''https://music.apple.com/us/song/two/1002''\<rparr>"

definition album_track3 :: AppleMusicTrack where
  "album_track3 =
     \<lparr>t_id = JStr ''1003'', t_title = JStr ''Three'', t_artist = JStr ''Artist X'',
      t_thumbnail = JStr favicon, t_duration = JStr ''1:02:03'',
      t_url = JStr ''https://music.apple.com/us/song/three/1003''\<rparr>"

definition album1 :: AppleMusicCollection where
  "album1 =
     \<lparr>c_id = Some [], c_title = ''Unknown Album'', c_description = Some ''Unknown Album'',
      c_artwork = favicon, c_tracks = [album_track1, album_track2, album_track3],
      c_url = Some album_link, c_artist = JStr ''Artist X''\<rparr>"

definition playlist_track1 :: AppleMusicTrack where
  "playlist_track1 =
     \<lparr>t_id = JStr ''1001'', t_title = JStr ''One'', t_artist = JStr ''Unknown Artist'',
      t_thumbnail = JStr favicon, t_duration = JStr ''45'',
      t_url = JStr ''https://music.apple.com/us/song/one/1001''\<rparr>"

definition playlist_track2 :: AppleMusicTrack where
  "playlist_track2 =
     \<lparr>t_id = JStr ''1002'', t_title = JStr ''Unknown Title'', t_artist = JStr ''Artist Y'',
      t_thumbnail = JStr favicon, t_duration = JStr ''0'',
      t_url = JStr ''https://music.apple.com/us/song/two/1002''\<rparr>"

definition playlist1 :: AppleMusicCollection where
  "playlist1 =
     \<lparr>c_id = None, c_title = ''Unknown Title'', c_description = Some ''No Description'',
      c_artwork = favicon, c_tracks = [playlist_track1, playlist_track2],
      c_url = Some playlist_link, c_artist = JUndefined\<rparr>"

definition rejecting_options :: "(unit, nat) AppleMusicExtractorInit" where
  "rejecting_options = \<lparr>createStream = Some (\<lambda>p u t. Inl ''no stream for this track'')\<rparr>"
section \<open>Properties of the matcher\<close>

lemma consumed_shift: "consumed (shift p c st) (shift p c st') = consumed st st'"
  by (simp add: consumed_def shift_def)

lemma step_char_shift: "step_char ok (shift p c st) = map (shift p c) (step_char ok st)"
  by (cases st) (auto simp: step_char_def shift_def split: list.splits)

lemma filter_consumed_shift:
  "filter (consumed (shift p c st)) (map (shift p c) xs) = map (shift p c) (filter (consumed st) xs)"
  by (induction xs) (simp_all add: consumed_shift)

lemma concat_map_shift:
  assumes "\<And>x. f (shift p c x) = map (shift p c) (f x)"
  shows "concat (map f (map (shift p c) xs)) = map (shift p c) (concat (map f xs))"
  using assms by (induction xs) simp_all

lemma iter_shift:
  assumes m: "\<And>st. m (shift p c st) = map (shift p c) (m st)"
  shows "iter n g m (shift p c st) = map (shift p c) (iter n g m st)"
proof (induction n arbitrary: st)
  case 0
  show ?case by simp
next
  case (Suc n)
  have "concat (map (iter n g m) (filter (consumed (shift p c st)) (m (shift p c st))))
        = map (shift p c) (concat (map (iter n g m) (filter (consumed st) (m st))))"
    by (simp only: m filter_consumed_shift concat_map_shift [of "iter n g m", OF Suc.IH])
  then show ?case by (simp add: Let_def shift_def)
qed

lemma length_rest_shift: "length (fst (snd (shift p c st))) = length (fst (snd st))"
  by (simp add: shift_def)

lemma rmatch_shift:
  "no_bol rx \<Longrightarrow> rmatch rx (shift p c st) = map (shift p c) (rmatch rx st)"
proof (induction rx arbitrary: st)
  case (Seq a b)
  then show ?case by (simp add: concat_map_shift del: map_map)
next
  case (Opt a)
  then show ?case by (simp add: filter_consumed_shift)
next
  case (Star g a)
  then show ?case by (simp add: iter_shift length_rest_shift)
next
  case (Cap n a)
  then show ?case by (simp add: shift_def)
qed (simp_all add: step_char_shift, simp_all add: shift_def)

text \<open>
  The bound on the number of iterations is never the reason a repetition stops: any
  bound of at least the length of the input left gives the same matches.
\<close>

lemma iter_bound:
  "length (fst (snd st)) \<le> n \<Longrightarrow> iter n g m st = iter (length (fst (snd st))) g m st"
proof (induction n arbitrary: st rule: less_induct)
  case (less n)
  show ?case
  proof (cases "length (fst (snd st))")
    case 0
    then have "filter (consumed st) (m st) = []"
      by (simp add: consumed_def)
    with 0 show ?thesis by (cases n) (simp_all add: Let_def)
  next
    case (Suc l)
    with less.prems obtain k where n: "n = Suc k" and lk: "l \<le> k"
      by (cases n) auto
    have "iter k g m st' = iter l g m st'" if "st' \<in> set (filter (consumed st) (m st))" for st'
    proof -
      from that Suc have le: "length (fst (snd st')) \<le> l" by (simp add: consumed_def)
      have "iter k g m st' = iter (length (fst (snd st'))) g m st'"
        using less.IH [of k st'] le lk n by simp
      moreover have "iter l g m st' = iter (length (fst (snd st'))) g m st'"
        using less.IH [of l st'] le lk n by simp
      ultimately show ?thesis by simp
    qed
    then have eq: "map (iter k g m) (filter (consumed st) (m st))
             = map (iter l g m) (filter (consumed st) (m st))"
      by (intro map_cong) auto
    have "iter (Suc k) g m st = iter (Suc l) g m st"
      by (simp only: iter.simps Let_def eq)
    then show ?thesis unfolding n Suc .
  qed
qed

lemma iter_nonempty: "iter n g m st \<noteq> []"
  by (cases n) (simp_all add: Let_def)

lemma rmatch_never_fails: "never_fails rx \<Longrightarrow> rmatch rx st \<noteq> []"
proof (induction rx arbitrary: st)
  case (Seq a b)
  then obtain x xs where "rmatch a st = x # xs" by (cases "rmatch a st") auto
  with Seq show ?case by simp
qed (auto simp: iter_nonempty)

lemma exec_from_shift:
  "no_bol rx \<Longrightarrow> exec_from rx (p + q) s = map_option (shift p []) (exec_from rx q s)"
proof (induction s arbitrary: q)
  case Nil
  have "rmatch rx (p + q, [], []) = map (shift p []) (rmatch rx (q, [], []))"
    using rmatch_shift [OF Nil, of p "[]" "(q, [], [])"] by (simp add: shift_def)
  then show ?case by (cases "rmatch rx (q, [], [])") simp_all
next
  case (Cons x s)
  have "rmatch rx (p + q, x # s, []) = map (shift p []) (rmatch rx (q, x # s, []))"
    using rmatch_shift [OF Cons.prems, of p "[]" "(q, x # s, [])"] by (simp add: shift_def)
  moreover have "exec_from rx (Suc (p + q)) s = map_option (shift p []) (exec_from rx (Suc q) s)"
    using Cons.IH [OF Cons.prems, of "Suc q"] by simp
  ultimately show ?case by (cases "rmatch rx (q, x # s, [])") simp_all
qed

lemma units_never_fail: "never_fails units_pattern"
  by (simp add: units_pattern_def r_group_def)

lemma units_no_bol: "no_bol units_pattern"
  by (simp add: units_pattern_def r_group_def number_pattern_def Plus_def digit_def)

lemma duration_no_bol: "no_bol duration_regex"
  by (simp add: duration_regex_def units_no_bol)

lemma rmatch_duration:
  "rmatch duration_regex (p, s, []) =
     (case s of
        [] \<Rightarrow> []
      | x # t \<Rightarrow>
          if x = CHR ''P'' then rmatch units_pattern (Suc p, t, [])
          else if x = CHR ''-'' then
            (case t of
               [] \<Rightarrow> []
             | y # u \<Rightarrow>
                 if y = CHR ''P''
                 then rmatch units_pattern (Suc (Suc p), u, [(''negative'', ''-'')])
                 else [])
          else [])"
  by (simp add: duration_regex_def step_char_def consumed_def split: list.splits)

lemma exec_from_no_P: "CHR ''P'' \<notin> set s \<Longrightarrow> exec_from duration_regex p s = None"
proof (induction s arbitrary: p)
  case Nil
  show ?case by (simp add: rmatch_duration)
next
  case (Cons x s)
  then have "rmatch duration_regex (p, x # s, []) = []"
    by (auto simp: rmatch_duration split: list.splits)
  with Cons show ?case by simp
qed

lemma exec_from_with_P: "CHR ''P'' \<in> set s \<Longrightarrow> exec_from duration_regex p s \<noteq> None"
proof (induction s arbitrary: p)
  case Nil
  then show ?case by simp
next
  case (Cons x s)
  show ?case
  proof (cases "rmatch duration_regex (p, x # s, [])")
    case Nil
    then have "x \<noteq> CHR ''P''"
      using rmatch_never_fails [OF units_never_fail, of "(Suc p, s, [])"]
      by (auto simp: rmatch_duration)
    with Cons.prems have "CHR ''P'' \<in> set s" by simp
    from Cons.IH [OF this, of "Suc p"] Nil show ?thesis by simp
  next
    case (Cons st sts)
    then show ?thesis by simp
  qed
qed

lemma groups_shift:
  "n \<noteq> ''negative'' \<Longrightarrow> c = [] \<or> c = [(''negative'', ''-'')] \<Longrightarrow>
     groups (snd (snd (shift p c st))) n = groups (snd (snd st)) n"
  by (auto simp: groups_def shift_def map_add_def split: option.splits)

lemma dur_shift:
  "c = [] \<or> c = [(''negative'', ''-'')] \<Longrightarrow> dur (snd (snd (shift p c st))) = dur (snd (snd st))"
  by (simp add: dur_def groups_shift)

lemma units_at:
  assumes c: "c = [] \<or> c = [(''negative'', ''-'')]"
  shows "\<exists>y ys zs. rmatch units_pattern (0, t, []) = y # ys \<and>
           rmatch units_pattern (p, t, c) = shift p c y # zs"
proof -
  obtain y ys where y: "rmatch units_pattern (0, t, []) = y # ys"
    using rmatch_never_fails [OF units_never_fail, of "(0, t, [])"]
    by (cases "rmatch units_pattern (0, t, [])") auto
  have "rmatch units_pattern (p, t, c) = map (shift p c) (rmatch units_pattern (0, t, []))"
    using rmatch_shift [OF units_no_bol, of p c "(0, t, [])"] by (simp add: shift_def)
  then have "rmatch units_pattern (p, t, c) = shift p c y # map (shift p c) ys"
    by (simp add: y)
  with y show ?thesis by blast
qed

lemma exec_sign_P:
  "\<exists>y. exec duration_regex (CHR ''P'' # t) = Some (shift 1 [] y) \<and>
       exec duration_regex (CHR ''-'' # CHR ''P'' # t) = Some (shift (Suc (Suc 0)) [(''negative'', ''-'')] y)"
proof -
  obtain y ys where y: "rmatch units_pattern (0, t, []) = y # ys"
    using rmatch_never_fails [OF units_never_fail, of "(0, t, [])"]
    by (cases "rmatch units_pattern (0, t, [])") auto
  have a: "rmatch units_pattern (Suc 0, t, []) = map (shift 1 []) (y # ys)"
    using rmatch_shift [OF units_no_bol, of 1 "[]" "(0, t, [])"] by (simp add: shift_def y)
  have b: "rmatch units_pattern (Suc (Suc 0), t, [(''negative'', ''-'')])
             = map (shift (Suc (Suc 0)) [(''negative'', ''-'')]) (y # ys)"
    using rmatch_shift [OF units_no_bol, of "Suc (Suc 0)" "[(''negative'', ''-'')]" "(0, t, [])"]
    by (simp add: shift_def y)
  show ?thesis
    by (rule exI [of _ y]) (simp add: exec_def rmatch_duration a b)
qed

lemma parseDuration_minus: "parseDuration (CHR ''-'' # s) = parseDuration s"
proof (cases s)
  case Nil
  then show ?thesis by (simp add: parseDuration_def exec_def rmatch_duration)
next
  case (Cons x t)
  show ?thesis
  proof (cases "x = CHR ''P''")
    case True
    obtain y where
      "exec duration_regex (CHR ''P'' # t) = Some (shift 1 [] y)"
      "exec duration_regex (CHR ''-'' # CHR ''P'' # t) = Some (shift (Suc (Suc 0)) [(''negative'', ''-'')] y)"
      using exec_sign_P [of t] by blast
    then show ?thesis
      using True Cons by (simp add: parseDuration_def dur_shift)
  next
    case False
    have "exec_from duration_regex (1 + 0) s = map_option (shift 1 []) (exec_from duration_regex 0 s)"
      by (rule exec_from_shift [OF duration_no_bol])
    with False Cons have "exec duration_regex (CHR ''-'' # s) = map_option (shift 1 []) (exec duration_regex s)"
      by (simp add: exec_def rmatch_duration)
    then show ?thesis
      by (cases "exec duration_regex s") (simp_all add: parseDuration_def dur_shift)
  qed
qed

lemma exec_duration_iff_P: "test duration_regex d \<longleftrightarrow> CHR ''P'' \<in> set d"
proof (cases "CHR ''P'' \<in> set d")
  case True
  then show ?thesis unfolding test_def exec_def by (simp del: exec_from.simps add: exec_from_with_P)
next
  case False
  then show ?thesis unfolding test_def exec_def by (simp del: exec_from.simps add: exec_from_no_P)
qed

section \<open>Duration display\<close>

text \<open>
  C2. A duration whose only captured unit is seconds should keep at least the last two
  units and read \<open>0:SS\<close>. The filter keeps an absent unit only at an index greater than
  \<open>length - 2\<close>, which is the last index alone, so \<open>PT5S\<close> is shown as \<open>5\<close> and
  \<open>PT0S\<close> as \<open>0\<close>.
\<close>

theorem parseDuration_bare_seconds:
  "parseDuration ''PT5S'' = ''5'' \<and> parseDuration ''PT0S'' = ''0''"
  by code_simp

text \<open>
  C9, as stated: every string outside the duration grammar gives \<open>0:00\<close>. The pattern is
  not anchored, so a string outside the grammar that contains a duration is shown from
  that duration.
\<close>

theorem parseDuration_outside_grammar_counterexample:
  "\<not> in_duration_grammar ''xPT1H2M3S'' \<and> parseDuration ''xPT1H2M3S'' \<noteq> ''0:00''"
  by code_simp

text \<open>
  C9, amended: \<open>PT1H2M3S\<close> is shown as \<open>1:02:03\<close>; the pattern finds a match exactly in
  the strings that contain the letter \<open>P\<close>, and every string in which it finds none is
  shown as the default \<open>0:00\<close>. The function has no failing branch.
\<close>

theorem parseDuration_default:
  "parseDuration ''PT1H2M3S'' = ''1:02:03'' \<and>
   (test duration_regex d \<longleftrightarrow> CHR ''P'' \<in> set d) \<and>
   (\<not> test duration_regex d \<longrightarrow> parseDuration d = ''0:00'')"
proof -
  have "parseDuration ''PT1H2M3S'' = ''1:02:03''" by code_simp
  moreover have "\<not> test duration_regex d \<longrightarrow> parseDuration d = ''0:00''"
    by (cases "exec duration_regex d") (simp_all add: test_def parseDuration_def)
  ultimately show ?thesis by (simp add: exec_duration_iff_P)
qed

theorem parseDuration_default_witness:
  "\<not> test duration_regex ''not-a-duration'' \<and> parseDuration ''not-a-duration'' = ''0:00''"
  using parseDuration_default [of "''not-a-duration''"] by simp

text \<open>
  C10. A leading minus sign never changes the result: the sign is captured in the group
  \<open>negative\<close>, which the rendering does not read, and a minus that is not followed by
  \<open>P\<close> only moves the search one index on.
\<close>

theorem parseDuration_sign_ignored: "parseDuration (''-'' @ s) = parseDuration s"
  using parseDuration_minus [of s] by simp

section \<open>Properties of the platform operations\<close>


lemma ebind_Inl_iff: "ebind m f = Inl e \<longleftrightarrow> (m = Inl e \<or> (\<exists>x. m = Inr x \<and> f x = Inl e))"
  by (cases m) auto

lemma map_e_Inr: "map_e f xs = Inr ys \<longleftrightarrow> list_all2 (\<lambda>x y. f x = Inr y) xs ys"
proof (induction xs arbitrary: ys)
  case Nil
  show ?case by auto
next
  case (Cons x xs)
  show ?case
    by (cases "f x"; cases "map_e f xs"; cases ys) (auto simp: Cons.IH [symmetric])
qed

lemma js_split_nonempty: "js_split sep cur s \<noteq> []"
  by (induction sep cur s rule: js_split.induct) auto

lemma split_nonempty: "split s sep \<noteq> []"
  by (simp add: split_def js_split_nonempty)

lemma js_split_query:
  "hd (js_split ''?'' cur s) = cur @ takeWhile (\<lambda>c. c \<noteq> CHR ''?'') s"
  by (induction s arbitrary: cur) auto

lemma strip_query_takeWhile: "strip_query link = takeWhile (\<lambda>c. c \<noteq> CHR ''?'') link"
  using js_split_query [of "[]" link] js_split_nonempty [of "''?''" "[]" link]
  by (cases "js_split ''?'' [] link") (auto simp: strip_query_def split_def)

lemma str_or_pop_split: "str_or (pop (split u sep)) [] = last (split u sep)"
  using split_nonempty [of u sep]
  by (cases "split u sep") (auto simp: str_or_def pop_def)

lemma storefront_simps:
  "fetch storefront_world = storefront_fetch"
  "parse storefront_world = storefront_parse"
  "JSON_parse storefront_world = storefront_JSON"
  "URL_new storefront_world = storefront_URL"
  by (simp_all add: storefront_world_def)

section \<open>The page fetcher\<close>

text \<open>
  C5. \<open>getHTML\<close> should resolve with null on every failure and never reject. It does
  so when the transport fails and when the body cannot be read. The rejection handler is
  the second argument of the very \<open>then\<close> whose first argument calls the HTML parser,
  so an exception of the parser is not handled: when fetching and reading succeed, the
  outcome of \<open>getHTML\<close> is the outcome of the parser, and a text the parser refuses
  makes \<open>getHTML\<close> reject. (Its callers \<open>getSongInfo\<close>, \<open>getPlaylistInfo\<close> and
  \<open>getAlbumInfo\<close> await it outside any \<open>try\<close>.)
\<close>

theorem getHTML_outcomes:
  "(fetch w link [(''User-Agent'', UA)] = Inl reason \<longrightarrow> getHTML w link = Inr None) \<and>
   (fetch w link [(''User-Agent'', UA)] = Inr (Inl reason) \<longrightarrow> getHTML w link = Inr None) \<and>
   (fetch w link [(''User-Agent'', UA)] = Inr (Inr txt) \<longrightarrow>
      getHTML w link =
        (case parse w txt of Inl refusal \<Rightarrow> Inl (Rejected refusal) | Inr d \<Rightarrow> Inr (Some d)))"
  by (auto simp: getHTML_def then2_def then1_def lift_def split: sum.splits)

theorem getHTML_outcomes_witness:
  "fetch storefront_world ''nowhere'' [(''User-Agent'', UA)] = Inl ''unreachable'' \<and>
   getHTML storefront_world ''nowhere'' = Inr None \<and>
   fetch storefront_world cut_link [(''User-Agent'', UA)] = Inr (Inl ''connection reset'') \<and>
   getHTML storefront_world cut_link = Inr None \<and>
   fetch storefront_world album_link [(''User-Agent'', UA)] = Inr (Inr ''album'') \<and>
   getHTML storefront_world album_link = Inr (Some album_page) \<and>
   fetch storefront_world garbled_link [(''User-Agent'', UA)] = Inr (Inr ''garbled'') \<and>
   parse storefront_world ''garbled'' = Inl ''unexpected input'' \<and>
   getHTML storefront_world garbled_link = Inl (Rejected ''unexpected input'')"
proof -
  have a: "fetch storefront_world ''nowhere'' [(''User-Agent'', UA)] = Inl ''unreachable''"
    by (simp add: storefront_simps storefront_fetch_def album_link_def playlist_link_def
          bad_playlist_link_def bare_playlist_link_def song_page_link_def search_link_def
          cut_link_def garbled_link_def)
  have b: "fetch storefront_world cut_link [(''User-Agent'', UA)] = Inr (Inl ''connection reset'')"
    by (simp add: storefront_simps storefront_fetch_def album_link_def playlist_link_def
          bad_playlist_link_def bare_playlist_link_def song_page_link_def search_link_def
          cut_link_def garbled_link_def)
  have c: "fetch storefront_world album_link [(''User-Agent'', UA)] = Inr (Inr ''album'')"
    by (simp add: storefront_simps storefront_fetch_def)
  have d: "parse storefront_world ''album'' = Inr album_page"
    by (simp add: storefront_simps storefront_parse_def)
  have e: "fetch storefront_world garbled_link [(''User-Agent'', UA)] = Inr (Inr ''garbled'')"
    by (simp add: storefront_simps storefront_fetch_def album_link_def playlist_link_def
          bad_playlist_link_def bare_playlist_link_def song_page_link_def search_link_def
          cut_link_def garbled_link_def)
  have f: "parse storefront_world ''garbled'' = Inl ''unexpected input''"
    by (simp add: storefront_simps storefront_parse_def)
  show ?thesis
    using getHTML_outcomes [of storefront_world "''nowhere''" "''unreachable''" "''album''"]
          getHTML_outcomes [of storefront_world cut_link "''connection reset''" "''album''"]
          getHTML_outcomes [of storefront_world album_link "''unreachable''" "''album''"]
          getHTML_outcomes [of storefront_world garbled_link "''unreachable''" "''garbled''"]
    by (simp add: a b c d e f)
qed

section \<open>Validation and streaming\<close>

lemma song_link_matches: "test appleMusicSongRegex song_link"
  by code_simp

lemma unprefixed_matches_nothing:
  "\<not> test appleMusicSongRegex unprefixed_playlist_link"
  "\<not> test appleMusicAlbumRegex unprefixed_playlist_link"
  "\<not> test appleMusicPlaylistRegex unprefixed_playlist_link"
  by code_simp+

text \<open>
  C8. A query is valid exactly when it is not URL-shaped, or it is URL-shaped and one of
  the three link patterns matches it. In particular a song link with a trailing number
  after \<open>?i=\<close> is valid whatever the URL parser says of it, a URL-shaped playlist link
  whose identifier lacks the \<open>pl.\<close> prefix is not valid, and every string that is not
  URL-shaped is valid. (Being URL-shaped is the platform's judgement: \<open>new URL\<close> accepts
  the string.)
\<close>

theorem validate_rule:
  "(validate w q \<longleftrightarrow>
      (\<not> isUrl w q \<or>
       (isUrl w q \<and> (test appleMusicSongRegex q \<or> test appleMusicAlbumRegex q
                      \<or> test appleMusicPlaylistRegex q)))) \<and>
   validate w song_link \<and>
   (isUrl w unprefixed_playlist_link \<longrightarrow> \<not> validate w unprefixed_playlist_link) \<and>
   (\<not> isUrl w q \<longrightarrow> validate w q)"
  using song_link_matches unprefixed_matches_nothing
  by (auto simp: validate_def)

theorem validate_rule_witness:
  "isUrl storefront_world unprefixed_playlist_link \<and>
   \<not> validate storefront_world unprefixed_playlist_link \<and>
   \<not> isUrl storefront_world ''hello world'' \<and>
   validate storefront_world ''hello world''"
proof -
  have a: "isUrl storefront_world unprefixed_playlist_link"
    by (simp add: isUrl_def storefront_simps storefront_URL_def unprefixed_playlist_link_def
          album_link_def song_link_def)
  have b: "\<not> isUrl storefront_world ''hello world''"
    by (simp add: isUrl_def storefront_simps storefront_URL_def album_link_def song_link_def)
  show ?thesis
    using validate_rule [of storefront_world "''hello world''"] a b by simp
qed

text \<open>
  C7, as stated: \<open>stream\<close> fails exactly when no stream function was configured and the
  bridge yields nothing usable. A configured function can itself reject, and \<open>stream\<close>
  awaits it without a handler: with such a function \<open>stream\<close> fails, whatever the bridge
  would have found.
\<close>

theorem stream_custom_rejection_counterexample:
  "createStream rejecting_options \<noteq> None \<and>
   usable (Some \<lparr>br_result = Some (Readable (7::nat))\<rparr>) = Some (Readable 7) \<and>
   stream (activate (new_extractor rejecting_options))
          (\<lambda>t. Inr (Some \<lparr>br_result = Some (Readable 7)\<rparr>)) a_track
     = Inl (Rejected ''no stream for this track'')"
  by (simp add: rejecting_options_def usable_def stream_def activate_def new_extractor_def
        lift_def Let_def)

text \<open>
  C7, amended: once activated, \<open>stream\<close> throws its own error, that the track could not
  be bridged, exactly when no stream function was configured and the bridge resolves with
  nothing usable (no result, no stream in the result, or an empty address). With a
  configured function the outcome of \<open>stream\<close> is that function's outcome, unchanged,
  be it a handle, an address or a rejection; a usable bridge result is returned; and the
  only errors that come out of \<open>stream\<close> are its own bridging error and a rejection of
  the collaborator it called, passed on as it is.
\<close>

theorem stream_failure:
  "(stream (activate (new_extractor opts)) bridge info = Inl (Thrown ''Could not bridge this track'')
      \<longleftrightarrow> createStream opts = None \<and> (\<exists>r. bridge info = Inr r \<and> usable r = None)) \<and>
   (createStream opts = Some f \<longrightarrow>
      stream (activate (new_extractor opts)) bridge info
        = lift (f [''amsearch'', ''applemusic''] (tr_url info) info)) \<and>
   (createStream opts = None \<and> bridge info = Inr r \<and> usable r = Some s \<longrightarrow>
      stream (activate (new_extractor opts)) bridge info = Inr s) \<and>
   (stream (activate (new_extractor opts)) bridge info = Inl e \<longrightarrow>
      e = Thrown ''Could not bridge this track'' \<or>
      (\<exists>g reason. createStream opts = Some g \<and> e = Rejected reason \<and>
         g [''amsearch'', ''applemusic''] (tr_url info) info = Inl reason) \<or>
      (\<exists>reason. createStream opts = None \<and> e = Rejected reason \<and> bridge info = Inl reason))"
proof (cases "createStream opts")
  case None
  then have s: "stream (activate (new_extractor opts)) bridge info =
      ebind (lift (bridge info))
        (\<lambda>r. case usable r of None \<Rightarrow> Inl (Thrown ''Could not bridge this track'') | Some s \<Rightarrow> Inr s)"
    by (simp add: stream_def activate_def new_extractor_def Let_def)
  show ?thesis
    unfolding s using None
    by (cases "bridge info") (auto simp: lift_def split: option.splits)
next
  case (Some g)
  then have s: "stream (activate (new_extractor opts)) bridge info =
      lift (g [''amsearch'', ''applemusic''] (tr_url info) info)"
    by (simp add: stream_def activate_def new_extractor_def Let_def)
  show ?thesis
    unfolding s using Some
    by (cases "g [''amsearch'', ''applemusic''] (tr_url info) info") (auto simp: lift_def)
qed

theorem stream_failure_witness:
  "createStream silent_options = None \<and>
   usable (None :: nat bridge_result option) = None \<and>
   stream (activate (new_extractor silent_options)) (\<lambda>t. Inr None) a_track
     = Inl (Thrown ''Could not bridge this track'') \<and>
   stream (activate (new_extractor custom_options)) (\<lambda>t. Inr None) a_track
     = Inr (Address ''https://cdn.example/one.mp3'') \<and>
   usable (Some \<lparr>br_result = Some (Readable (7::nat))\<rparr>) = Some (Readable 7) \<and>
   stream (activate (new_extractor silent_options)) (\<lambda>t. Inr (Some \<lparr>br_result = Some (Readable 7)\<rparr>)) a_track
     = Inr (Readable 7)"
  using stream_failure [of silent_options "\<lambda>t. Inr None" a_track "\<lambda>p u t. Inl []" None "Readable 0"
                           "Thrown ''Could not bridge this track''"]
        stream_failure [of custom_options "\<lambda>t. Inr None" a_track
                           "\<lambda>p u t. Inr (Address ''https://cdn.example/one.mp3'')" None "Readable 0"
                           "Thrown ''Could not bridge this track''"]
        stream_failure [of silent_options "\<lambda>t. Inr (Some \<lparr>br_result = Some (Readable 7)\<rparr>)" a_track
                           "\<lambda>p u t. Inl []" "Some \<lparr>br_result = Some (Readable 7)\<rparr>" "Readable 7"
                           "Thrown ''Could not bridge this track''"]
  by (simp add: silent_options_def custom_options_def usable_def lift_def)

section \<open>The extractors on pages\<close>

lemmas link_defs = album_link_def playlist_link_def bad_playlist_link_def bare_playlist_link_def
  song_page_link_def search_link_def cut_link_def garbled_link_def song_link_def

lemma storefront_pages:
  "getHTML storefront_world album_link = Inr (Some album_page)"
  "getHTML storefront_world playlist_link = Inr (Some playlist_page)"
  "getHTML storefront_world bad_playlist_link = Inr (Some bad_playlist_page)"
  "getHTML storefront_world bare_playlist_link = Inr (Some bare_page)"
  "getHTML storefront_world song_page_link = Inr (Some song_page)"
  "getHTML storefront_world search_link = Inr (Some search_page)"
  by (simp_all add: getHTML_def then2_def then1_def lift_def storefront_simps storefront_fetch_def
        storefront_parse_def link_defs)

text \<open>
  C3. A playlist page without a JSON-LD block gives a collection with an empty track list.
  A JSON-LD block that is not JSON does not degrade: the block is parsed outside any
  \<open>try\<close>, so the failure of \<open>JSON.parse\<close> is the outcome of \<open>getPlaylistInfo\<close>.
  (The album extractor catches the same failure, and so does the parse of the serialized
  data a few lines earlier in the same function.)
\<close>

theorem getPlaylistInfo_json_ld:
  "(getHTML w link = Inr (Some doc) \<and> querySelector doc playlist_selector = None \<longrightarrow>
      (\<exists>c. getPlaylistInfo w link = Inr (Some c) \<and> c_tracks c = [])) \<and>
   (getHTML w link = Inr (Some doc) \<and> querySelector doc playlist_selector = Some e \<and>
    JSON_parse w (el_text e) = Inl reason \<longrightarrow>
      getPlaylistInfo w link = Inl (Rejected reason))"
  by (simp add: getPlaylistInfo_def playlist_of_page_def playlist_tracks_def Let_def lift_def)

theorem getPlaylistInfo_json_ld_witness:
  "getHTML storefront_world bare_playlist_link = Inr (Some bare_page) \<and>
   querySelector bare_page playlist_selector = None \<and>
   (\<exists>c. getPlaylistInfo storefront_world bare_playlist_link = Inr (Some c) \<and> c_tracks c = []) \<and>
   getHTML storefront_world bad_playlist_link = Inr (Some bad_playlist_page) \<and>
   querySelector bad_playlist_page playlist_selector = Some (script ''{not json'') \<and>
   JSON_parse storefront_world (el_text (script ''{not json'')) = Inl ''Unexpected token'' \<and>
   getPlaylistInfo storefront_world bad_playlist_link = Inl (Rejected ''Unexpected token'')"
proof -
  have a: "querySelector bare_page playlist_selector = None"
    by (simp add: bare_page_def)
  have b: "querySelector bad_playlist_page playlist_selector = Some (script ''{not json'')"
    by (simp add: bad_playlist_page_def)
  have c: "JSON_parse storefront_world (el_text (script ''{not json'')) = Inl ''Unexpected token''"
    by (simp add: storefront_simps storefront_JSON_def script_def)
  show ?thesis
    using getPlaylistInfo_json_ld [of storefront_world bare_playlist_link bare_page
                                      "script ''{not json''" "''Unexpected token''"]
          getPlaylistInfo_json_ld [of storefront_world bad_playlist_link bad_playlist_page
                                      "script ''{not json''" "''Unexpected token''"]
    by (simp add: a b c storefront_pages)
qed

lemma get_prop_truthy: "get_prop v k = Inr x \<Longrightarrow> x \<noteq> JUndefined \<Longrightarrow> truthy v"
  by (cases v) (auto simp: get_prop_def truthy_def)

lemma get_prop_object: "get_prop v k = Inr x \<Longrightarrow> \<exists>y. get_prop v k' = Inr y"
  by (cases v) (auto simp: get_prop_def)

lemma map_e_total:
  assumes "\<forall>x\<in>set xs. \<exists>y. f x = Inr y"
  shows "\<exists>ys. map_e f xs = Inr ys"
  using assms by (induction xs) auto

lemma map_e_nth:
  assumes "map_e f xs = Inr ys"
  shows "length ys = length xs \<and> (\<forall>i<length xs. f (xs ! i) = Inr (ys ! i))"
  using assms by (simp add: map_e_Inr list_all2_conv_all_nth)

lemma to_str_JStr: "to_str w (JStr s) = Inr s"
  by (simp add: to_str_def)

lemma album_track_ok:
  assumes "get_prop t ''url'' = Inr (JStr u)"
    and "get_prop t ''duration'' = Inr JUndefined \<or> (\<exists>s. get_prop t ''duration'' = Inr (JStr s))"
  shows "\<exists>r. album_track w th a t = Inr r \<and> t_artist r = a \<and> t_id r = JStr (last (split u ''/''))"
proof -
  obtain n where n: "get_prop t ''name'' = Inr n" using get_prop_object [OF assms(1)] by blast
  have "\<exists>d ds. get_prop t ''duration'' = Inr d \<and> to_str w (or_js d (JStr ''PT0S'')) = Inr ds"
  proof -
    from assms(2) obtain d where d: "get_prop t ''duration'' = Inr d"
      and k: "d = JUndefined \<or> (\<exists>s. d = JStr s)" by blast
    from k have "\<exists>r. or_js d (JStr ''PT0S'') = JStr r"
      by (auto simp: or_js_def truthy_def)
    then obtain r where "or_js d (JStr ''PT0S'') = JStr r" by blast
    then have "to_str w (or_js d (JStr ''PT0S'')) = Inr r" by (simp add: to_str_JStr)
    with d show ?thesis by blast
  qed
  then obtain d ds where
    d: "get_prop t ''duration'' = Inr d" "to_str w (or_js d (JStr ''PT0S'')) = Inr ds"
    by blast
  show ?thesis
    by (simp add: album_track_def assms(1) d n as_string_def str_or_pop_split)
qed

text \<open>
  C6. The album page is fetched at the link cut at its first question mark. When its
  JSON-LD block gives the artist name \<open>Artist X\<close> as \<open>byArtist[0].name\<close> and lists
  tracks, each with an address that is a string and a duration that is absent or a string
  (as the track type of the source declares them), \<open>getAlbumInfo\<close> returns a collection
  with one track per listed track, in order (three for three), each with artist
  \<open>Artist X\<close> and with the last \<open>/\<close>-separated piece of its address as identifier.
  That piece is the last path segment of an address without query, fragment or trailing
  slash.
\<close>

theorem getAlbumInfo_tracks:
  assumes page: "getHTML w (takeWhile (\<lambda>c. c \<noteq> CHR ''?'') link) = Inr (Some doc)"
    and block: "querySelector doc album_selector = Some e"
               "JSON_parse w (el_text e) = Inr jsonLd"
    and artist: "get_prop jsonLd ''byArtist'' = Inr authors" "idx0 authors = Inr first"
                "get_prop first ''name'' = Inr (JStr ''Artist X'')"
    and tracks: "get_prop jsonLd ''tracks'' = Inr (JArr ts)"
                "\<forall>t\<in>set ts. \<exists>u. get_prop t ''url'' = Inr (JStr u)"
                "\<forall>t\<in>set ts. get_prop t ''duration'' = Inr JUndefined \<or>
                            (\<exists>s. get_prop t ''duration'' = Inr (JStr s))"
  shows "\<exists>c. getAlbumInfo w link = Inr (Some c) \<and>
           length (c_tracks c) = length ts \<and>
           (\<forall>i<length ts.
              t_artist (c_tracks c ! i) = JStr ''Artist X'' \<and>
              (\<exists>u. get_prop (ts ! i) ''url'' = Inr (JStr u) \<and>
                   t_id (c_tracks c ! i) = JStr (last (split u ''/''))))"
proof -
  define th where "th = (case querySelector doc (meta_property ''og:image'') of
                     Some e \<Rightarrow> getAttribute e ''content'' | None \<Rightarrow> Some favicon)"
  let ?f = "album_track w th (JStr ''Artist X'')"
  have "\<forall>t\<in>set ts. \<exists>r. ?f t = Inr r"
  proof
    fix t assume t: "t \<in> set ts"
    then obtain u where u: "get_prop t ''url'' = Inr (JStr u)" using tracks(2) by blast
    from t have "get_prop t ''duration'' = Inr JUndefined \<or>
                   (\<exists>s. get_prop t ''duration'' = Inr (JStr s))"
      using tracks(3) by blast
    from album_track_ok [OF u this] show "\<exists>r. ?f t = Inr r" by blast
  qed
  then obtain rs where rs: "map_e ?f ts = Inr rs"
    using map_e_total by blast
  have len: "length rs = length ts" and nth: "\<forall>i<length ts. ?f (ts ! i) = Inr (rs ! i)"
    using map_e_nth [OF rs] by auto
  have truthy: "truthy jsonLd" "truthy (JArr ts)"
    using get_prop_truthy [OF tracks(1)] by (simp_all add: truthy_def)
  have ld: "album_json_ld w th (Some e) = Inr (JStr ''Artist X'', rs)"
    by (simp add: album_json_ld_def block lift_def artist tracks(1) truthy as_array_def rs)
  have res: "getAlbumInfo w link = Inr (Some
             \<lparr>c_id = Some (str_or (content_of (querySelector doc (meta_name ''apple:content_id''))) []),
              c_title = str_or (case querySelector doc (meta_name ''apple:title'') of
                     Some e \<Rightarrow> getAttribute e ''content'' | None \<Rightarrow> Some ''Unknown Album'') ''Unknown Album'',
              c_description = (case querySelector doc (meta_name ''apple:title'') of
                     Some e \<Rightarrow> getAttribute e ''content'' | None \<Rightarrow> Some ''Unknown Album''),
              c_artwork = str_or th favicon,
              c_tracks = rs,
              c_url = Some link,
              c_artist = JStr ''Artist X''\<rparr>)"
    using ld
    by (simp add: getAlbumInfo_def strip_query_takeWhile page album_of_page_def Let_def
          th_def [symmetric] block catch_def)
  have each: "\<forall>i<length ts. t_artist (rs ! i) = JStr ''Artist X'' \<and>
              (\<exists>u. get_prop (ts ! i) ''url'' = Inr (JStr u) \<and>
                   t_id (rs ! i) = JStr (last (split u ''/'')))"
  proof (intro allI impI)
    fix i assume i: "i < length ts"
    then have m: "ts ! i \<in> set ts" by simp
    then obtain u where u: "get_prop (ts ! i) ''url'' = Inr (JStr u)"
      using tracks(2) by blast
    from m have d: "get_prop (ts ! i) ''duration'' = Inr JUndefined \<or>
                   (\<exists>s. get_prop (ts ! i) ''duration'' = Inr (JStr s))"
      using tracks(3) by blast
    from album_track_ok [OF u d, of w th "JStr ''Artist X''"] nth i
    show "t_artist (rs ! i) = JStr ''Artist X'' \<and>
              (\<exists>u. get_prop (ts ! i) ''url'' = Inr (JStr u) \<and>
                   t_id (rs ! i) = JStr (last (split u ''/'')))"
      using u by auto
  qed
  show ?thesis
    using res len each by simp
qed

theorem getAlbumInfo_tracks_witness:
  "getHTML storefront_world (takeWhile (\<lambda>c. c \<noteq> CHR ''?'') (album_link @ ''?l=en''))
     = Inr (Some album_page) \<and>
   querySelector album_page album_selector = Some (script ''album-ld'') \<and>
   JSON_parse storefront_world (el_text (script ''album-ld'')) = Inr album_json \<and>
   get_prop album_json ''byArtist'' = Inr (JArr [JObj [(''name'', JStr ''Artist X'')]]) \<and>
   idx0 (JArr [JObj [(''name'', JStr ''Artist X'')]]) = Inr (JObj [(''name'', JStr ''Artist X'')]) \<and>
   get_prop (JObj [(''name'', JStr ''Artist X'')]) ''name'' = Inr (JStr ''Artist X'') \<and>
   get_prop album_json ''tracks'' = Inr (JArr album_tracks) \<and>
   list_all (\<lambda>t. \<exists>u. get_prop t ''url'' = Inr (JStr u)) album_tracks \<and>
   list_all (\<lambda>t. get_prop t ''duration'' = Inr JUndefined \<or>
                 (\<exists>s. get_prop t ''duration'' = Inr (JStr s))) album_tracks \<and>
   (\<exists>c. getAlbumInfo storefront_world (album_link @ ''?l=en'') = Inr (Some c) \<and>
        length (c_tracks c) = 3)"
proof -
  have h1: "getHTML storefront_world (takeWhile (\<lambda>c. c \<noteq> CHR ''?'') (album_link @ ''?l=en''))
     = Inr (Some album_page)"
    using storefront_pages(1) by (simp add: album_link_def)
  have h2: "querySelector album_page album_selector = Some (script ''album-ld'')"
    by (simp add: album_page_def)
  have h3: "JSON_parse storefront_world (el_text (script ''album-ld'')) = Inr album_json"
    by (simp add: storefront_simps storefront_JSON_def script_def)
  have h4: "get_prop album_json ''byArtist'' = Inr (JArr [JObj [(''name'', JStr ''Artist X'')]])"
    by (simp add: album_json_def get_prop_def)
  have h5: "idx0 (JArr [JObj [(''name'', JStr ''Artist X'')]]) = Inr (JObj [(''name'', JStr ''Artist X'')])"
    by (simp add: idx0_def)
  have h6: "get_prop (JObj [(''name'', JStr ''Artist X'')]) ''name'' = Inr (JStr ''Artist X'')"
    by (simp add: get_prop_def)
  have h7: "get_prop album_json ''tracks'' = Inr (JArr album_tracks)"
    by (simp add: album_json_def get_prop_def)
  have h8: "\<forall>t\<in>set album_tracks. \<exists>u. get_prop t ''url'' = Inr (JStr u)"
    by (simp add: album_tracks_def get_prop_def)
  have h9: "\<forall>t\<in>set album_tracks. get_prop t ''duration'' = Inr JUndefined \<or>
                 (\<exists>s. get_prop t ''duration'' = Inr (JStr s))"
    by (simp add: album_tracks_def get_prop_def)
  have n: "length album_tracks = 3"
    by (simp add: album_tracks_def)
  from getAlbumInfo_tracks [OF h1 h2 h3 h4 h5 h6 h7 h8 h9]
  have "\<exists>c. getAlbumInfo storefront_world (album_link @ ''?l=en'') = Inr (Some c) \<and>
        length (c_tracks c) = 3"
    unfolding n by blast
  moreover have "list_all (\<lambda>t. \<exists>u. get_prop t ''url'' = Inr (JStr u)) album_tracks"
    using h8 by (simp add: list_all_iff)
  moreover have "list_all (\<lambda>t. get_prop t ''duration'' = Inr JUndefined \<or>
                 (\<exists>s. get_prop t ''duration'' = Inr (JStr s))) album_tracks"
    using h9 by (simp add: list_all_iff)
  ultimately show ?thesis using h1 h2 h3 h4 h5 h6 h7 by blast
qed

section \<open>The fields of a track\<close>























lemma storefront_results:
  "getSongInfo storefront_world song_link = Inr (Some song1)"
  "getPlaylistInfo storefront_world playlist_link = Inr (Some playlist1)"
  "getAlbumInfo storefront_world album_link = Inr (Some album1)"
  "search storefront_world ''foo'' = Inr [untitled]"
  by code_simp+




section \<open>Dispatch\<close>

text \<open>
  Every string the album pattern matches is matched by the song pattern: the song pattern
  allows \<open>album\<close> where the album pattern has it, and its last alternative is a bare
  slash. Greedy and lazy repetition find the same matches, in a different order.
\<close>

lemma in_rmatch_Seq:
  "st' \<in> set (rmatch a st) \<Longrightarrow> st'' \<in> set (rmatch b st') \<Longrightarrow> st'' \<in> set (rmatch (Seq a b) st)"
  by auto

lemma rmatch_Seq_split:
  "st'' \<in> set (rmatch (Seq a b) st) \<Longrightarrow> \<exists>st'. st' \<in> set (rmatch a st) \<and> st'' \<in> set (rmatch b st')"
  by auto

lemma set_iter_lazy: "set (iter n g m st) = set (iter n True m st)"
proof (induction n arbitrary: st)
  case 0
  show ?case by simp
next
  case (Suc n)
  then show ?case by (cases g) (simp_all add: Let_def)
qed

lemma set_rmatch_Plus: "set (rmatch (Plus g a) st) = set (rmatch (Plus True a) st)"
  using set_iter_lazy [of _ g "rmatch a"] by (simp add: Plus_def)

lemma rmatch_lit:
  "rmatch (lit s) (p, x, c) =
     (if take (length s) x = s then [(p + length s, drop (length s) x, c)] else [])"
proof (induction s arbitrary: p x)
  case Nil
  show ?case by simp
next
  case (Cons a s)
  show ?case
    by (cases x) (simp_all add: step_char_def Cons.IH)
qed

lemma album_literal:
  assumes "st3 \<in> set (rmatch (lit ''/album/'') st2)"
  shows "\<exists>sa sb. sa \<in> set (rmatch (Chr CHR ''/'') st2) \<and>
                 sb \<in> set (rmatch (Alt (lit ''song'') (lit ''album'')) sa) \<and>
                 st3 \<in> set (rmatch (Chr CHR ''/'') sb)"
proof -
  obtain p x c where st2: "st2 = (p, x, c)" by (cases st2)
  let ?n = "length ''/album/''"
  have m: "rmatch (lit ''/album/'') (p, x, c) =
      (if take ?n x = ''/album/'' then [(p + ?n, drop ?n x, c)] else [])"
    by (rule rmatch_lit)
  from assms have t: "take ?n x = ''/album/''" and st3: "st3 = (p + ?n, drop ?n x, c)"
    unfolding st2 m by (simp_all split: if_splits)
  from t have "x = ''/album/'' @ drop ?n x" by (metis append_take_drop_id)
  then obtain rest where x: "x = ''/album/'' @ rest" and d: "drop ?n x = rest" by auto
  have 1: "(Suc p, ''album/'' @ rest, c) \<in> set (rmatch (Chr CHR ''/'') st2)"
    by (simp add: st2 x step_char_def)
  have "rmatch (lit ''album'') (Suc p, ''album/'' @ rest, c) = [(Suc p + 5, ''/'' @ rest, c)]"
    unfolding rmatch_lit by simp
  then have 2: "(Suc p + 5, ''/'' @ rest, c)
       \<in> set (rmatch (Alt (lit ''song'') (lit ''album'')) (Suc p, ''album/'' @ rest, c))"
    by (simp del: lit.simps)
  have 3: "st3 \<in> set (rmatch (Chr CHR ''/'') (Suc p + 5, ''/'' @ rest, c))"
    using d by (simp add: st3 step_char_def)
  from 1 2 3 show ?thesis by blast
qed

lemma storefront_at_start: "fst st \<noteq> 0 \<Longrightarrow> rmatch (Seq storefront rx) st = []"
  by (simp add: storefront_def)

lemma exec_from_anchored:
  "exec_from (Seq storefront rx) (Suc p) s = None"
proof (induction s arbitrary: p)
  case Nil
  show ?case by (simp add: storefront_at_start del: rmatch.simps)
next
  case (Cons a s)
  have "rmatch (Seq storefront rx) (Suc p, a # s, []) = []"
    by (rule storefront_at_start) simp
  with Cons show ?case by (simp del: rmatch.simps)
qed

lemma test_anchored:
  "test (Seq storefront rx) q \<longleftrightarrow> rmatch (Seq storefront rx) (0, q, []) \<noteq> []"
proof -
  have "exec_from (Seq storefront rx) 0 q =
      (case rmatch (Seq storefront rx) (0, q, []) of
         st # _ \<Rightarrow> Some st
       | [] \<Rightarrow> (case q of [] \<Rightarrow> None | _ # s' \<Rightarrow> exec_from (Seq storefront rx) (Suc 0) s'))"
    by (rule exec_from.simps)
  then show ?thesis
    unfolding test_def exec_def
    by (cases "rmatch (Seq storefront rx) (0, q, [])"; cases q)
       (simp_all add: exec_from_anchored del: exec_from.simps rmatch.simps)
qed

lemma album_regex_unfolded:
  "appleMusicAlbumRegex =
     Seq storefront (Seq (Plus False Dot) (Seq (lit ''/album/'') (Seq (Plus True Dot)
       (Seq (Chr CHR ''/'') (seqs [Plus True digit, Eol])))))"
  by (simp add: appleMusicAlbumRegex_def)

lemma song_regex_unfolded:
  "appleMusicSongRegex =
     Seq storefront (Seq (Plus False Dot) (Seq (Chr CHR ''/'')
       (Seq (Alt (lit ''song'') (lit ''album'')) (Seq (Chr CHR ''/'') (Seq (Plus False Dot)
         (Seq (Alt (seqs [Chr CHR ''/'', Plus False Dot, lit ''?i='']) (Chr CHR ''/''))
              (seqs [Plus True digit, Eol])))))))"
  by (simp add: appleMusicSongRegex_def)

lemma album_matches_song:
  assumes "test appleMusicAlbumRegex q"
  shows "test appleMusicSongRegex q"
proof -
  let ?tail = "seqs [Plus True digit, Eol]"
  let ?index = "Alt (seqs [Chr CHR ''/'', Plus False Dot, lit ''?i='']) (Chr CHR ''/'')"
  from assms have "rmatch appleMusicAlbumRegex (0, q, []) \<noteq> []"
    unfolding album_regex_unfolded test_anchored .
  then obtain st7 where "st7 \<in> set (rmatch appleMusicAlbumRegex (0, q, []))"
    by (cases "rmatch appleMusicAlbumRegex (0, q, [])") auto
  then obtain st1 where
    s1: "st1 \<in> set (rmatch storefront (0, q, []))" and
    r1: "st7 \<in> set (rmatch (Seq (Plus False Dot) (Seq (lit ''/album/'') (Seq (Plus True Dot)
       (Seq (Chr CHR ''/'') ?tail)))) st1)"
    unfolding album_regex_unfolded using rmatch_Seq_split by blast
  from r1 obtain st2 where
    s2: "st2 \<in> set (rmatch (Plus False Dot) st1)" and
    r2: "st7 \<in> set (rmatch (Seq (lit ''/album/'') (Seq (Plus True Dot)
       (Seq (Chr CHR ''/'') ?tail))) st2)"
    using rmatch_Seq_split by blast
  from r2 obtain st3 where
    s3: "st3 \<in> set (rmatch (lit ''/album/'') st2)" and
    r3: "st7 \<in> set (rmatch (Seq (Plus True Dot) (Seq (Chr CHR ''/'') ?tail)) st3)"
    using rmatch_Seq_split by blast
  from r3 obtain st4 where
    s4: "st4 \<in> set (rmatch (Plus True Dot) st3)" and
    r4: "st7 \<in> set (rmatch (Seq (Chr CHR ''/'') ?tail) st4)"
    using rmatch_Seq_split by blast
  from r4 obtain st5 where
    s5: "st5 \<in> set (rmatch (Chr CHR ''/'') st4)" and
    s7: "st7 \<in> set (rmatch ?tail st5)"
    using rmatch_Seq_split by blast
  from album_literal [OF s3] obtain sa sb where
    a: "sa \<in> set (rmatch (Chr CHR ''/'') st2)" and
    b: "sb \<in> set (rmatch (Alt (lit ''song'') (lit ''album'')) sa)" and
    c: "st3 \<in> set (rmatch (Chr CHR ''/'') sb)"
    by blast
  from s4 have s4': "st4 \<in> set (rmatch (Plus False Dot) st3)"
    using set_rmatch_Plus [of False Dot st3] by simp
  from s5 have s5': "st5 \<in> set (rmatch ?index st4)"
    by simp
  have "st7 \<in> set (rmatch appleMusicSongRegex (0, q, []))"
    unfolding song_regex_unfolded
    by (intro in_rmatch_Seq [OF s1] in_rmatch_Seq [OF s2] in_rmatch_Seq [OF a]
          in_rmatch_Seq [OF b] in_rmatch_Seq [OF c] in_rmatch_Seq [OF s4']
          in_rmatch_Seq [OF s5'] s7)
  then have "rmatch appleMusicSongRegex (0, q, []) \<noteq> []" by auto
  then show ?thesis
    unfolding song_regex_unfolded test_anchored .
qed

lemma getSongInfo_album_link: "getSongInfo storefront_world album_link = Inr None"
  by code_simp

text \<open>
  C1. An album link without \<open>?i=\<close> should go to the album extractor and come back as
  the album with its tracks. \<open>handle\<close> tries the song pattern first, and the song pattern
  matches every album link: the link goes to the song extractor, and the album branch is
  never reached. On the storefront whose album page lists three tracks, the song extractor
  finds no track index in the link and returns nothing, so \<open>handle\<close> returns the empty
  response although the album extractor returns the album.
\<close>

theorem album_link_takes_song_branch:
  "test appleMusicAlbumRegex q \<longrightarrow>
     test appleMusicSongRegex q \<and>
     handle w q ctx =
       ebind (getSongInfo w q) (\<lambda>info.
         case info of
           None \<Rightarrow> Inr (createResponse None None)
         | Some i \<Rightarrow> Inr (createResponse None (Some [buildTrack i ctx None])))"
  using album_matches_song [of q] by (simp add: handle_def)

theorem album_link_takes_song_branch_witness:
  "test appleMusicAlbumRegex album_link \<and>
   \<not> str_includes album_link ''?i='' \<and>
   getAlbumInfo storefront_world album_link = Inr (Some album1) \<and>
   handle storefront_world album_link \<lparr>requestedBy = ()\<rparr> = Inr (createResponse None None)"
proof -
  have a: "test appleMusicAlbumRegex album_link" by code_simp
  have b: "\<not> str_includes album_link ''?i=''" by code_simp
  from album_link_takes_song_branch [of album_link storefront_world "\<lparr>requestedBy = ()\<rparr>"] a
  have "handle storefront_world album_link \<lparr>requestedBy = ()\<rparr> = Inr (createResponse None None)"
    by (simp add: getSongInfo_album_link)
  with a b storefront_results(3) show ?thesis by simp
qed

end
